theory Spec2Isabelle
  imports Main
begin

section \<open>Python values shared by the modules\<close>

text \<open>
  A Python \<open>str\<close> is a \<^typ>\<open>string\<close> holding its UTF-8 bytes.  An exception is a
  value of \<open>py_error\<close>; a function that may raise returns \<open>py_error + 'a\<close> with
  \<open>Inl\<close> for the raised exception.  \<open>Exception\<close> and \<open>ValueError\<close> carry the
  message the source builds.
\<close>

datatype py_error =
    Exception string
  | ValueError string
  | KeyError string
  | TypeError
  | AttributeError
  | IndexError
  | JSONDecodeError

text \<open>
  JSON values as \<open>json.load\<close> and \<open>response.json()\<close> return them and \<open>json.dump\<close>
  writes them.  Numbers are the integers the token fields hold.  A Python \<open>dict\<close> with
  string keys is a map from keys to values; \<open>d.get(k)\<close> is \<open>d k\<close>, and
  \<open>d.update(e)\<close> is \<open>d ++ e\<close>.
\<close>

datatype json =
    JNull
  | JBool bool
  | JInt int
  | JStr string
  | JList "json list"
  | JObj "string \<Rightarrow> json option"

type_synonym dict = "string \<Rightarrow> json option"

text \<open>\<open>d.get(k)\<close> without a default: \<open>None\<close>, that is JSON \<open>null\<close>, for a missing key.\<close>

definition dict_get :: "dict \<Rightarrow> string \<Rightarrow> json" where
  "dict_get d k = (case d k of None \<Rightarrow> JNull | Some v \<Rightarrow> v)"

text \<open>\<open>d.get(k, default)\<close>.\<close>

definition dict_get_default :: "dict \<Rightarrow> string \<Rightarrow> json \<Rightarrow> json" where
  "dict_get_default d k dflt = (case d k of None \<Rightarrow> dflt | Some v \<Rightarrow> v)"

text \<open>\<open>d[k]\<close>: raises \<open>KeyError\<close> for a missing key.\<close>

definition dict_index :: "dict \<Rightarrow> string \<Rightarrow> py_error + json" where
  "dict_index d k = (case d k of None \<Rightarrow> Inl (KeyError k) | Some v \<Rightarrow> Inr v)"

text \<open>\<open>str(n)\<close> and the \<open>{n}\<close> of an f-string, for an integer.\<close>

fun str_nat :: "nat \<Rightarrow> string" where
  "str_nat n =
     (if n < 10 then [''0123456789'' ! n]
      else str_nat (n div 10) @ [''0123456789'' ! (n mod 10)])"

definition str_int :: "int \<Rightarrow> string" where
  "str_int i = (if i < 0 then CHR ''-'' # str_nat (nat (- i)) else str_nat (nat i))"

text \<open>
  \<open>len(text.split())\<close>: the number of maximal runs of characters that are not
  whitespace.  \<open>str.split()\<close> cuts at the characters for which \<open>str.isspace\<close>
  holds: U+0009 to U+000D, U+001C to U+0020, U+0085, U+00A0, U+1680, U+2000 to U+200A,
  U+2028, U+2029, U+202F, U+205F and U+3000.  \<open>space_len\<close> is the number of bytes the
  whitespace character at the head of the text takes in UTF-8, and 0 when the text
  does not start with one.
\<close>

definition ascii_space :: "char \<Rightarrow> bool" where
  "ascii_space c = (c \<in> {CHR '' '', CHR 0x09, CHR 0x0A, CHR 0x0B, CHR 0x0C, CHR 0x0D,
                           CHR 0x1C, CHR 0x1D, CHR 0x1E, CHR 0x1F})"

definition space_len :: "string \<Rightarrow> nat" where
  "space_len s =
     (case s of
        [] \<Rightarrow> 0
      | c # cs \<Rightarrow>
          if ascii_space c then 1
          else if c = CHR 0xC2 \<and> take 1 cs \<in> {[CHR 0x85], [CHR 0xA0]} then 2
          else if c = CHR 0xE1 \<and> take 2 cs = [CHR 0x9A, CHR 0x80] then 3
          else if c = CHR 0xE2 \<and> take 1 cs = [CHR 0x80]
                  \<and> take 1 (drop 1 cs) \<in> {[CHR 0x80], [CHR 0x81], [CHR 0x82], [CHR 0x83],
                        [CHR 0x84], [CHR 0x85], [CHR 0x86], [CHR 0x87], [CHR 0x88],
                        [CHR 0x89], [CHR 0x8A], [CHR 0xA8], [CHR 0xA9], [CHR 0xAF]} then 3
          else if c = CHR 0xE2 \<and> take 2 cs = [CHR 0x81, CHR 0x9F] then 3
          else if c = CHR 0xE3 \<and> take 2 cs = [CHR 0x80, CHR 0x80] then 3
          else 0)"

text \<open>
  The scan: \<open>skip\<close> counts the bytes still to pass of the whitespace character
  being read, \<open>in_word\<close> tells whether the last character read belongs to a word.
\<close>

fun count_words :: "nat \<Rightarrow> bool \<Rightarrow> string \<Rightarrow> nat" where
  "count_words skip in_word [] = 0"
| "count_words skip in_word (c # cs) =
     (if skip > 0 then count_words (skip - 1) in_word cs
      else if space_len (c # cs) > 0 then count_words (space_len (c # cs) - 1) False cs
      else if in_word then count_words 0 True cs
      else Suc (count_words 0 True cs))"

definition len_split :: "string \<Rightarrow> nat" where
  "len_split text = count_words 0 False text"

section \<open>embedding\_server.py\<close>

definition MODEL_NAME :: string where
  "MODEL_NAME = ''sentence-transformers/all-MiniLM-L6-v2''"

text \<open>\<open>EmbeddingRequest.input\<close> is \<open>Union[str, List[str]]\<close>.\<close>

datatype embedding_input = Single string | Batch "string list"

record 'v embedding_entry =
  object :: string
  embedding :: 'v
  index :: nat

record usage_info =
  prompt_tokens :: nat
  total_tokens :: nat

record 'v embedding_response =
  data :: "'v embedding_entry list"
  model :: string
  usage :: usage_info

record http_exception =
  exc_status_code :: int
  detail :: string

text \<open>
  Lines 48--51 of \<open>create_embeddings\<close>: a single string becomes a one-element list.
\<close>

definition normalize_input :: "embedding_input \<Rightarrow> string list" where
  "normalize_input inp = (case inp of Single s \<Rightarrow> [s] | Batch ts \<Rightarrow> ts)"

text \<open>
  \<open>create_embeddings\<close>.  The model is the external capability \<open>encode\<close>: given the
  list of texts it returns the list of their vectors, or raises (\<open>Inl\<close> of the
  exception's \<open>str\<close>).  Every exception of the body becomes an \<open>HTTPException\<close>
  with status 500.
\<close>

definition create_embeddings ::
  "(string list \<Rightarrow> string + 'v list) \<Rightarrow> embedding_input \<Rightarrow> http_exception + 'v embedding_response"
where
  "create_embeddings encode inp =
     (let texts = normalize_input inp in
      case encode texts of
        Inl e \<Rightarrow>
          Inl \<lparr>exc_status_code = 500, detail = ''Embedding generation failed: '' @ e\<rparr>
      | Inr embedding_list \<Rightarrow>
          (let data = map (\<lambda>(i, embedding).
                             \<lparr>object = ''embedding'', embedding = embedding, index = i\<rparr>)
                          (List.enumerate 0 embedding_list);
               total_tokens = sum_list (map len_split texts)
           in Inr \<lparr>data = data, model = MODEL_NAME,
                   usage = \<lparr>prompt_tokens = total_tokens, total_tokens = total_tokens\<rparr>\<rparr>))"

text \<open>The legacy endpoint \<open>/embeddings\<close> calls \<open>create_embeddings\<close>.\<close>

definition create_embeddings_legacy ::
  "(string list \<Rightarrow> string + 'v list) \<Rightarrow> embedding_input \<Rightarrow> http_exception + 'v embedding_response"
where
  "create_embeddings_legacy encode inp = create_embeddings encode inp"

section \<open>HTTP transport, files and the platform\<close>

text \<open>
  A request as \<open>requests.post\<close>, \<open>requests.get\<close> and \<open>requests.request\<close>
  receive it, and the part of a \<open>requests.Response\<close> the code reads:
  \<open>status_code\<close>, \<open>text\<close> and the outcome of \<open>json()\<close>, which is the parsed
  body or the decoding error it raises.  The functions that return
  \<open>response.json()\<close> are annotated \<open>Dict[str, Any]\<close>, so a parsed body is a \<open>dict\<close>.
\<close>

record http_request =
  req_method :: string
  req_url :: string
  req_headers :: "(string \<times> string) list"
  req_params :: "(string \<times> json) list"
  req_data :: "(string \<times> json) list"
  req_json :: "json option"

record response =
  status_code :: int
  resp_text :: string
  resp_json :: "py_error + dict"

text \<open>
  The credential file \<open>hubspot_tokens.json\<close> holds either the dump of a \<open>dict\<close> or
  text that \<open>json.load\<close> rejects (the empty file that \<open>open(..., 'w')\<close> leaves,
  for one).
\<close>

datatype file_content = NotJson string | JsonDoc dict

text \<open>
  The world the code acts on: the credential file (\<open>None\<close> when it does not exist),
  the requests sent so far, oldest first, and the URLs given to \<open>webbrowser.open\<close>.
\<close>

record world =
  tokens_file :: "file_content option"
  http_log :: "http_request list"
  browser :: "string list"

text \<open>
  What the code takes from outside: the remote servers \<open>net\<close> (the response to a
  request, given the requests sent before it), \<open>repr\<close> of a JSON container, and the
  value \<open>secrets.token_urlsafe(16)\<close> returns.
\<close>

record platform =
  net :: "http_request list \<Rightarrow> http_request \<Rightarrow> response"
  repr :: "json \<Rightarrow> string"
  token_urlsafe :: string

definition requests_send :: "platform \<Rightarrow> http_request \<Rightarrow> world \<Rightarrow> response \<times> world" where
  "requests_send pf rq w = (net pf (http_log w) rq, w\<lparr>http_log := http_log w @ [rq]\<rparr>)"

text \<open>The text an f-string puts for \<open>{v}\<close>.\<close>

definition format_value :: "platform \<Rightarrow> json \<Rightarrow> string" where
  "format_value pf v =
     (case v of
        JStr s \<Rightarrow> s
      | JInt i \<Rightarrow> str_int i
      | JNull \<Rightarrow> ''None''
      | JBool b \<Rightarrow> (if b then ''True'' else ''False'')
      | _ \<Rightarrow> repr pf v)"

text \<open>Truth value of a JSON value in a condition.\<close>

definition truthy :: "json \<Rightarrow> bool" where
  "truthy v =
     (case v of
        JNull \<Rightarrow> False
      | JBool b \<Rightarrow> b
      | JInt i \<Rightarrow> i \<noteq> 0
      | JStr s \<Rightarrow> s \<noteq> []
      | JList l \<Rightarrow> l \<noteq> []
      | JObj d \<Rightarrow> d \<noteq> Map.empty)"

text \<open>\<open>v[:20]\<close>: defined on strings and lists, an exception on any other value.\<close>

definition slice20 :: "json \<Rightarrow> py_error + json" where
  "slice20 v =
     (case v of
        JStr s \<Rightarrow> Inr (JStr (take 20 s))
      | JList l \<Rightarrow> Inr (JList (take 20 l))
      | _ \<Rightarrow> Inl TypeError)"

text \<open>\<open>sep.join(xs)\<close> and \<open>s.split(' ')\<close>.\<close>

fun py_join :: "string \<Rightarrow> string list \<Rightarrow> string" where
  "py_join sep [] = []"
| "py_join sep [x] = x"
| "py_join sep (x # y # ys) = x @ sep @ py_join sep (y # ys)"

fun split_char :: "char \<Rightarrow> string \<Rightarrow> string list" where
  "split_char sep [] = [[]]"
| "split_char sep (c # cs) =
     (if c = sep then [] # split_char sep cs
      else (case split_char sep cs of
              [] \<Rightarrow> [[c]]
            | w # ws \<Rightarrow> (c # w) # ws))"

text \<open>\<open>v.split(' ')\<close> on a JSON value: only a string has the method.\<close>

definition json_split_space :: "json \<Rightarrow> py_error + json" where
  "json_split_space v =
     (case v of
        JStr s \<Rightarrow> Inr (JList (map JStr (split_char CHR '' '' s)))
      | _ \<Rightarrow> Inl AttributeError)"

section \<open>urllib.parse.urlencode\<close>

text \<open>
  \<open>urlencode\<close> of a \<open>dict\<close> with string values joins \<open>quote_plus(k)=quote_plus(v)\<close>
  with \<open>&\<close>.  \<open>quote_plus\<close> with \<open>safe=''\<close> keeps letters, digits and \<open>_.-~\<close>, turns a
  space into \<open>+\<close> and every other byte into \<open>%XX\<close> in upper-case hexadecimal.
\<close>

definition always_safe :: "char \<Rightarrow> bool" where
  "always_safe c =
     (c \<in> set ''ABCDEFGHIJKLMNOPQRSTUVWXYZabcdefghijklmnopqrstuvwxyz0123456789_.-~'')"

definition hex_digit :: "nat \<Rightarrow> char" where
  "hex_digit n = ''0123456789ABCDEF'' ! (n mod 16)"

definition quote_char :: "char \<Rightarrow> string" where
  "quote_char c =
     (if always_safe c then [c]
      else if c = CHR '' '' then ''+''
      else [CHR ''%'', hex_digit (of_char c div 16), hex_digit (of_char c mod 16)])"

definition quote_plus :: "string \<Rightarrow> string" where
  "quote_plus s = concat (map quote_char s)"

definition urlencode :: "(string \<times> string) list \<Rightarrow> string" where
  "urlencode params = py_join ''&'' (map (\<lambda>(k, v). quote_plus k @ ''='' @ quote_plus v) params)"

text \<open>The characters a quoted string is made of.\<close>

definition query_char :: "char \<Rightarrow> bool" where
  "query_char c = (always_safe c \<or> c = CHR ''+'' \<or> c = CHR ''%'')"

section \<open>hubspot\_oauth.py: the OAuth client\<close>

record hubspot_oauth =
  client_id :: string
  client_secret :: string
  redirect_uri :: string
  authorize_url :: string
  token_url :: string
  user_info_url :: string
  default_scopes :: "string list"

text \<open>
  \<open>HubSpotOAuth.__init__\<close>.  The environment is the map \<open>os.getenv\<close> reads;
  \<open>not v\<close> holds for a missing and for an empty variable.
\<close>

definition not_set :: "string option \<Rightarrow> bool" where
  "not_set v = (case v of None \<Rightarrow> True | Some s \<Rightarrow> s = [])"

definition HubSpotOAuth :: "(string \<Rightarrow> string option) \<Rightarrow> py_error + hubspot_oauth" where
  "HubSpotOAuth getenv =
     (if not_set (getenv ''HUBSPOT_CLIENT_ID'') \<or> not_set (getenv ''HUBSPOT_CLIENT_SECRET'')
      then Inl (ValueError (''Missing HubSpot credentials in .env file. '' @
                            ''Please set HUBSPOT_CLIENT_ID and HUBSPOT_CLIENT_SECRET''))
      else Inr \<lparr>client_id = the (getenv ''HUBSPOT_CLIENT_ID''),
                client_secret = the (getenv ''HUBSPOT_CLIENT_SECRET''),
                redirect_uri = (case getenv ''HUBSPOT_REDIRECT_URI'' of
                                  None \<Rightarrow> ''http://localhost:4000/hubspot/oauth/callback''
                                | Some u \<Rightarrow> u),
                authorize_url = ''https://app.hubspot.com/oauth/authorize'',
                token_url = ''https://api.hubapi.com/oauth/v1/token'',
                user_info_url = ''https://api.hubapi.com/oauth/v1/access-tokens'',
                default_scopes = [''crm.objects.contacts.read'',
                                  ''crm.objects.contacts.write'',
                                  ''crm.schemas.contacts.read'',
                                  ''crm.schemas.contacts.write'',
                                  ''oauth'']\<rparr>)"

text \<open>
  \<open>get_authorization_url\<close>.  \<open>scopes\<close> and \<open>state\<close> are optional arguments; a
  missing \<open>state\<close> is drawn from \<open>secrets.token_urlsafe(16)\<close>.
\<close>

definition authorization_params ::
  "platform \<Rightarrow> hubspot_oauth \<Rightarrow> string list option \<Rightarrow> string option \<Rightarrow> (string \<times> string) list"
where
  "authorization_params pf self scopes state =
     (let scopes = (case scopes of None \<Rightarrow> default_scopes self | Some l \<Rightarrow> l);
          state = (case state of None \<Rightarrow> token_urlsafe pf | Some st \<Rightarrow> st)
      in [(''client_id'', client_id self),
          (''redirect_uri'', redirect_uri self),
          (''scope'', py_join '' '' scopes),
          (''response_type'', ''code''),
          (''state'', state)])"

definition get_authorization_url ::
  "platform \<Rightarrow> hubspot_oauth \<Rightarrow> string list option \<Rightarrow> string option \<Rightarrow> string"
where
  "get_authorization_url pf self scopes state =
     authorize_url self @ ''?'' @ urlencode (authorization_params pf self scopes state)"

text \<open>The message of the exception a non-200 status raises.\<close>

definition failure_message :: "string \<Rightarrow> response \<Rightarrow> string" where
  "failure_message what r = what @ str_int (status_code r) @ '' - '' @ resp_text r"

definition form_headers :: "(string \<times> string) list" where
  "form_headers = [(''Content-Type'', ''application/x-www-form-urlencoded'')]"

definition bearer_headers :: "platform \<Rightarrow> json \<Rightarrow> (string \<times> string) list" where
  "bearer_headers pf access_token =
     [(''Authorization'', ''Bearer '' @ format_value pf access_token),
      (''Content-Type'', ''application/json'')]"

definition exchange_request :: "hubspot_oauth \<Rightarrow> string \<Rightarrow> http_request" where
  "exchange_request self authorization_code =
     \<lparr>req_method = ''POST'', req_url = token_url self, req_headers = form_headers,
      req_params = [],
      req_data = [(''grant_type'', JStr ''authorization_code''),
                  (''client_id'', JStr (client_id self)),
                  (''client_secret'', JStr (client_secret self)),
                  (''redirect_uri'', JStr (redirect_uri self)),
                  (''code'', JStr authorization_code)],
      req_json = None\<rparr>"

definition exchange_code_for_token ::
  "platform \<Rightarrow> hubspot_oauth \<Rightarrow> string \<Rightarrow> world \<Rightarrow> (py_error + dict) \<times> world"
where
  "exchange_code_for_token pf self authorization_code w =
     (let (response, w') = requests_send pf (exchange_request self authorization_code) w
      in if status_code response = 200 then (resp_json response, w')
         else (Inl (Exception (failure_message ''Token exchange failed: '' response)), w'))"

definition refresh_request :: "hubspot_oauth \<Rightarrow> json \<Rightarrow> http_request" where
  "refresh_request self refresh_token =
     \<lparr>req_method = ''POST'', req_url = token_url self, req_headers = form_headers,
      req_params = [],
      req_data = [(''grant_type'', JStr ''refresh_token''),
                  (''client_id'', JStr (client_id self)),
                  (''client_secret'', JStr (client_secret self)),
                  (''refresh_token'', refresh_token)],
      req_json = None\<rparr>"

definition refresh_access_token ::
  "platform \<Rightarrow> hubspot_oauth \<Rightarrow> json \<Rightarrow> world \<Rightarrow> (py_error + dict) \<times> world"
where
  "refresh_access_token pf self refresh_token w =
     (let (response, w') = requests_send pf (refresh_request self refresh_token) w
      in if status_code response = 200 then (resp_json response, w')
         else (Inl (Exception (failure_message ''Token refresh failed: '' response)), w'))"

definition get_user_info ::
  "platform \<Rightarrow> hubspot_oauth \<Rightarrow> json \<Rightarrow> world \<Rightarrow> (py_error + dict) \<times> world"
where
  "get_user_info pf self access_token w =
     (let (response, w') =
            requests_send pf
              \<lparr>req_method = ''GET'',
               req_url = user_info_url self @ ''/'' @ format_value pf access_token,
               req_headers = bearer_headers pf access_token,
               req_params = [], req_data = [], req_json = None\<rparr> w
      in if status_code response = 200 then (resp_json response, w')
         else (Inl (Exception (failure_message ''Failed to get user info: '' response)), w'))"

definition test_api_connection ::
  "platform \<Rightarrow> hubspot_oauth \<Rightarrow> json \<Rightarrow> world \<Rightarrow> dict \<times> world"
where
  "test_api_connection pf self access_token w =
     (let (response, w') =
            requests_send pf
              \<lparr>req_method = ''GET'',
               req_url = ''https://api.hubapi.com/crm/v3/objects/contacts'',
               req_headers = bearer_headers pf access_token,
               req_params = [], req_data = [], req_json = None\<rparr> w
      in if status_code response = 200
         then ([''status'' \<mapsto> JStr ''success'',
                ''message'' \<mapsto> JStr ''API connection successful''], w')
         else ([''status'' \<mapsto> JStr ''error'',
                ''message'' \<mapsto> JStr (''API connection failed: '' @ str_int (status_code response))],
               w'))"

section \<open>hubspot\_oauth.py: the callback listener\<close>

text \<open>
  The attributes of one \<open>OAuthCallbackHandler\<close>, those the code bolts onto the
  \<open>HTTPServer\<close>, and the response a handler writes (the status line, the headers it
  sends itself and the body).  A request is given by \<open>query_params\<close>, the \<open>dict\<close>
  \<open>parse_qs\<close> returns for the query string of the path: each key it holds is mapped
  to the list of that key's values.
\<close>

record handler =
  auth_code :: "string option"
  state :: "string option"
  error :: "string option"

record callback_server =
  server_auth_code :: "string option"
  server_state :: "string option"
  server_error :: "string option"

record http_reply =
  reply_status :: int
  reply_headers :: "(string \<times> string) list"
  reply_body :: string

type_synonym query_params = "string \<Rightarrow> string list option"

definition success_page :: string where
  "success_page =
     ''\<newline>            <html>'' @
     ''\<newline>            <head><title>OAuth Success</title></head>'' @
     ''\<newline>            <body>'' @
     ''\<newline>                <h1>Authentication Successful!</h1>'' @
     ''\<newline>                <p>You can close this window now.</p>'' @
     ''\<newline>                <script>window.close();</script>'' @
     ''\<newline>            </body>'' @
     ''\<newline>            </html>'' @
     ''\<newline>            ''"

definition error_page :: "string \<Rightarrow> string" where
  "error_page e =
     ''\<newline>            <html>'' @
     ''\<newline>            <head><title>OAuth Error</title></head>'' @
     ''\<newline>            <body>'' @
     ''\<newline>                <h1>Authentication Failed</h1>'' @
     ''\<newline>                <p>Error: '' @ e @ ''</p>'' @
     ''\<newline>                <p>You can close this window now.</p>'' @
     ''\<newline>                <script>window.close();</script>'' @
     ''\<newline>            </body>'' @
     ''\<newline>            </html>'' @
     ''\<newline>            ''"

text \<open>\<open>xs[0]\<close>.\<close>

fun first_item :: "'a list \<Rightarrow> py_error + 'a" where
  "first_item [] = Inl IndexError"
| "first_item (x # xs) = Inr x"

text \<open>
  \<open>OAuthCallbackHandler.do_GET\<close>.  A new handler, with its three attributes
  \<open>None\<close>, serves each request; the last three lines copy its attributes onto the
  server, whichever branch ran.  The result is the server after the request and the
  response written, \<open>None\<close> when the handler wrote none.
\<close>

definition do_GET ::
  "query_params \<Rightarrow> callback_server \<Rightarrow> py_error + (callback_server \<times> http_reply option)"
where
  "do_GET query_params server =
     (let self = \<lparr>auth_code = None, state = None, error = None\<rparr>;
          signal = (\<lambda>self. server\<lparr>server_auth_code := auth_code self,
                                   server_state := state self,
                                   server_error := error self\<rparr>)
      in if query_params ''code'' \<noteq> None then
           (case first_item (the (query_params ''code'')) of
              Inl e \<Rightarrow> Inl e
            | Inr c \<Rightarrow>
               (case (case query_params ''state'' of
                        None \<Rightarrow> Inr None
                      | Some l \<Rightarrow> map_sum id Some (first_item l)) of
                  Inl e \<Rightarrow> Inl e
                | Inr st \<Rightarrow>
                    Inr (signal (self\<lparr>auth_code := Some c, state := st\<rparr>),
                         Some \<lparr>reply_status = 200,
                               reply_headers = [(''Content-type'', ''text/html'')],
                               reply_body = success_page\<rparr>)))
         else if query_params ''error'' \<noteq> None then
           (case first_item (the (query_params ''error'')) of
              Inl e \<Rightarrow> Inl e
            | Inr err \<Rightarrow>
                Inr (signal (self\<lparr>error := Some err\<rparr>),
                     Some \<lparr>reply_status = 400,
                           reply_headers = [(''Content-type'', ''text/html'')],
                           reply_body = error_page err\<rparr>))
         else Inr (signal self, None))"

text \<open>
  One request at the listener: an exception that leaves \<open>do_GET\<close> is logged by the
  server, which goes on serving with its attributes as they were.
\<close>

definition serve :: "callback_server \<Rightarrow> query_params \<Rightarrow> callback_server" where
  "serve server query_params =
     (case do_GET query_params server of Inl e \<Rightarrow> server | Inr (server', reply) \<Rightarrow> server')"

definition start_callback_server :: callback_server where
  "start_callback_server = \<lparr>server_auth_code = None, server_state = None, server_error = None\<rparr>"

section \<open>hubspot\_oauth.py: the interactive flow\<close>

text \<open>
  The wait loop of \<open>interactive_oauth_flow\<close>.  The listener serves requests on its
  own thread while the orchestrator sleeps: \<open>arrivals\<close> lists, for each
  \<open>time.sleep(1)\<close> in turn, the requests served during it, and no request comes
  after the last.  The loop tests the two attributes before each sleep.  \<open>None\<close> is
  the loop that never ends: the attributes are still \<open>None\<close> and no request is left
  to change them.
\<close>

definition waiting :: "callback_server \<Rightarrow> bool" where
  "waiting server = (server_auth_code server = None \<and> server_error server = None)"

fun wait_for_callback :: "callback_server \<Rightarrow> query_params list list \<Rightarrow> callback_server option" where
  "wait_for_callback server [] = (if waiting server then None else Some server)"
| "wait_for_callback server (reqs # arrivals) =
     (if waiting server then wait_for_callback (foldl serve server reqs) arrivals
      else Some server)"

text \<open>\<open>if server.error:\<close> and \<open>if server.auth_code:\<close>.\<close>

definition is_set :: "string option \<Rightarrow> bool" where
  "is_set v = (case v of None \<Rightarrow> False | Some s \<Rightarrow> s \<noteq> [])"

text \<open>
  The \<open>try\<close> block of \<open>interactive_oauth_flow\<close>, lines 259--298.  The two
  \<open>print\<close> lines that slice a token are kept for the exception they raise on a
  value that cannot be sliced.  \<open>open(tokens_file, 'w')\<close> empties the file before
  the \<open>dict\<close> to dump is built.
\<close>

definition exchange_and_save ::
  "platform \<Rightarrow> hubspot_oauth \<Rightarrow> string \<Rightarrow> world \<Rightarrow> (py_error + dict) \<times> world"
where
  "exchange_and_save pf oauth_client code w =
     (case exchange_code_for_token pf oauth_client code w of
        (Inl e, w1) \<Rightarrow> (Inl e, w1)
      | (Inr token_data, w1) \<Rightarrow>
     (case slice20 (dict_get_default token_data ''access_token'' (JStr ''N/A'')) of
        Inl e \<Rightarrow> (Inl e, w1)
      | Inr _ \<Rightarrow>
     (case slice20 (dict_get_default token_data ''refresh_token'' (JStr ''N/A'')) of
        Inl e \<Rightarrow> (Inl e, w1)
      | Inr _ \<Rightarrow>
     (case dict_index token_data ''access_token'' of
        Inl e \<Rightarrow> (Inl e, w1)
      | Inr access_token \<Rightarrow>
     (case get_user_info pf oauth_client access_token w1 of
        (Inl e, w2) \<Rightarrow> (Inl e, w2)
      | (Inr user_info, w2) \<Rightarrow>
     (case test_api_connection pf oauth_client access_token w2 of
        (api_test, w3) \<Rightarrow>
     (let w4 = w3\<lparr>tokens_file := Some (NotJson [])\<rparr> in
      case json_split_space (dict_get_default token_data ''scope'' (JStr [])) of
        Inl e \<Rightarrow> (Inl e, w4)
      | Inr scopes \<Rightarrow>
          (Inr [''access_token'' \<mapsto> access_token,
                ''refresh_token'' \<mapsto> dict_get token_data ''refresh_token'',
                ''expires_in'' \<mapsto> dict_get token_data ''expires_in'',
                ''user_info'' \<mapsto> JObj user_info,
                ''api_test'' \<mapsto> JObj api_test],
           w4\<lparr>tokens_file :=
                 Some (JsonDoc [''access_token'' \<mapsto> access_token,
                                ''refresh_token'' \<mapsto> dict_get token_data ''refresh_token'',
                                ''expires_in'' \<mapsto> dict_get token_data ''expires_in'',
                                ''user'' \<mapsto> dict_get user_info ''user'',
                                ''scopes'' \<mapsto> scopes])\<rparr>))))))))"

text \<open>
  \<open>interactive_oauth_flow\<close>: the returned \<open>dict\<close> or \<open>None\<close>, with the world it
  leaves; the outer \<open>None\<close> is the wait loop that never ends.
\<close>

definition interactive_oauth_flow ::
  "platform \<Rightarrow> (string \<Rightarrow> string option) \<Rightarrow> query_params list list \<Rightarrow> world
     \<Rightarrow> (dict option \<times> world) option"
where
  "interactive_oauth_flow pf getenv arrivals w =
     (case HubSpotOAuth getenv of
        Inl e \<Rightarrow> Some (None, w)
      | Inr oauth_client \<Rightarrow>
          (let auth_url = get_authorization_url pf oauth_client None None;
               w0 = w\<lparr>browser := browser w @ [auth_url]\<rparr>
           in case wait_for_callback start_callback_server arrivals of
                None \<Rightarrow> None
              | Some server \<Rightarrow>
                  if is_set (server_error server) then Some (None, w0)
                  else if is_set (server_auth_code server) then
                    (case exchange_and_save pf oauth_client (the (server_auth_code server)) w0 of
                       (Inl e, w') \<Rightarrow> Some (None, w')
                     | (Inr result, w') \<Rightarrow> Some (Some result, w'))
                  else Some (None, w0)))"

section \<open>hubspot\_oauth.py: saved tokens\<close>

definition load_saved_tokens :: "world \<Rightarrow> dict option" where
  "load_saved_tokens w =
     (case tokens_file w of
        None \<Rightarrow> None
      | Some (NotJson t) \<Rightarrow> None
      | Some (JsonDoc d) \<Rightarrow> Some d)"

text \<open>
  \<open>refresh_saved_tokens\<close>: every exception of the \<open>try\<close> block is caught and
  gives \<open>None\<close>; the file is opened for writing only after \<open>tokens.update\<close>.
\<close>

definition refresh_saved_tokens ::
  "platform \<Rightarrow> (string \<Rightarrow> string option) \<Rightarrow> world \<Rightarrow> dict option \<times> world"
where
  "refresh_saved_tokens pf getenv w =
     (case load_saved_tokens w of
        None \<Rightarrow> (None, w)
      | Some tokens \<Rightarrow>
          if tokens = Map.empty \<or> tokens ''refresh_token'' = None then (None, w)
          else
            (case HubSpotOAuth getenv of
               Inl e \<Rightarrow> (None, w)
             | Inr oauth_client \<Rightarrow>
                 (case refresh_access_token pf oauth_client (the (tokens ''refresh_token'')) w of
                    (Inl e, w') \<Rightarrow> (None, w')
                  | (Inr new_tokens, w') \<Rightarrow>
                      (let tokens = tokens ++ new_tokens
                       in (Some tokens, w'\<lparr>tokens_file := Some (JsonDoc tokens)\<rparr>)))))"

section \<open>hubspot\_client.py\<close>

record hubspot_client =
  base_url :: string
  access_token :: json
  headers :: "(string \<times> string) list"

definition load_access_token :: "world \<Rightarrow> json" where
  "load_access_token w =
     (case tokens_file w of
        None \<Rightarrow> JNull
      | Some (NotJson t) \<Rightarrow> JNull
      | Some (JsonDoc tokens) \<Rightarrow> dict_get tokens ''access_token'')"

text \<open>\<open>HubSpotClient.__init__\<close>; the argument \<open>access_token\<close> defaults to \<open>None\<close>.\<close>

definition HubSpotClient :: "platform \<Rightarrow> world \<Rightarrow> json \<Rightarrow> py_error + hubspot_client" where
  "HubSpotClient pf w token =
     (let token = (if \<not> truthy token then load_access_token w else token)
      in if \<not> truthy token then Inl (ValueError ''No access token provided or found'')
         else Inr \<lparr>base_url = ''https://api.hubapi.com'',
                   access_token = token,
                   headers = bearer_headers pf token\<rparr>)"

text \<open>The keyword arguments the methods of the client pass to \<open>_make_request\<close>.\<close>

record kwargs =
  kw_headers :: "(string \<times> string) list option"
  kw_params :: "(string \<times> json) list"
  kw_json :: "json option"

text \<open>
  \<open>HubSpotClient._make_request\<close>: 401 first, then every other status from 400 up,
  then \<open>response.json()\<close>.
\<close>

definition client_request :: "hubspot_client \<Rightarrow> string \<Rightarrow> string \<Rightarrow> kwargs \<Rightarrow> http_request" where
  "client_request self method endpoint kw =
     (let url = base_url self @ endpoint;
          hs = (case kw_headers kw of None \<Rightarrow> headers self | Some h \<Rightarrow> h)
      in \<lparr>req_method = method, req_url = url, req_headers = hs,
          req_params = kw_params kw, req_data = [], req_json = kw_json kw\<rparr>)"

definition make_request ::
  "platform \<Rightarrow> hubspot_client \<Rightarrow> string \<Rightarrow> string \<Rightarrow> kwargs \<Rightarrow> world \<Rightarrow> (py_error + dict) \<times> world"
where
  "make_request pf self method endpoint kw w =
     (let (response, w') = requests_send pf (client_request self method endpoint kw) w
      in if status_code response = 401
         then (Inl (Exception ''Access token expired or invalid. Please refresh your tokens.''), w')
         else if status_code response \<ge> 400
         then (Inl (Exception (failure_message ''API request failed: '' response)), w')
         else (resp_json response, w'))"

text \<open>\<open>delete_contact\<close>: any exception of the request gives \<open>False\<close>.\<close>

definition delete_contact :: "platform \<Rightarrow> hubspot_client \<Rightarrow> string \<Rightarrow> world \<Rightarrow> bool \<times> world" where
  "delete_contact pf self contact_id w =
     (case make_request pf self ''DELETE'' (''/crm/v3/objects/contacts/'' @ contact_id)
             \<lparr>kw_headers = None, kw_params = [], kw_json = None\<rparr> w of
        (Inl e, w') \<Rightarrow> (False, w')
      | (Inr r, w') \<Rightarrow> (True, w'))"

section \<open>Concrete inputs for the examples\<close>

text \<open>A remote side that answers every request with the same response.\<close>

definition fixed_net :: "response \<Rightarrow> http_request list \<Rightarrow> http_request \<Rightarrow> response" where
  "fixed_net r log rq = r"

definition example_platform :: "response \<Rightarrow> platform" where
  "example_platform r = \<lparr>net = fixed_net r, repr = (\<lambda>v. ''[]''), token_urlsafe = ''c3RhdGU''\<rparr>"

definition example_env :: "string \<Rightarrow> string option" where
  "example_env = [''HUBSPOT_CLIENT_ID'' \<mapsto> ''cid'', ''HUBSPOT_CLIENT_SECRET'' \<mapsto> ''sec'']"

definition example_oauth :: hubspot_oauth where
  "example_oauth =
     \<lparr>client_id = ''cid'', client_secret = ''sec'',
      redirect_uri = ''http://localhost:4000/hubspot/oauth/callback'',
      authorize_url = ''https://app.hubspot.com/oauth/authorize'',
      token_url = ''https://api.hubapi.com/oauth/v1/token'',
      user_info_url = ''https://api.hubapi.com/oauth/v1/access-tokens'',
      default_scopes = [''crm.objects.contacts.read'', ''crm.objects.contacts.write'',
                        ''crm.schemas.contacts.read'', ''crm.schemas.contacts.write'',
                        ''oauth'']\<rparr>"

definition example_client :: hubspot_client where
  "example_client =
     \<lparr>base_url = ''https://api.hubapi.com'', access_token = JStr ''tok'',
      headers = [(''Authorization'', ''Bearer tok''), (''Content-Type'', ''application/json'')]\<rparr>"

definition no_kwargs :: kwargs where
  "no_kwargs = \<lparr>kw_headers = None, kw_params = [], kw_json = None\<rparr>"

definition new_world :: world where
  "new_world = \<lparr>tokens_file = None, http_log = [], browser = []\<rparr>"

definition ok_response :: "dict \<Rightarrow> response" where
  "ok_response body = \<lparr>status_code = 200, resp_text = ''{...}'', resp_json = Inr body\<rparr>"

definition failed_response :: "int \<Rightarrow> string \<Rightarrow> response" where
  "failed_response code body =
     \<lparr>status_code = code, resp_text = body, resp_json = Inl JSONDecodeError\<rparr>"

text \<open>The response to a request that succeeds without a body: 204 No Content.\<close>

definition no_content_response :: response where
  "no_content_response = \<lparr>status_code = 204, resp_text = [], resp_json = Inl JSONDecodeError\<rparr>"

text \<open>
  A credential file as \<open>interactive_oauth_flow\<close> wrote it and an earlier refresh
  extended it, and a refresh response without \<open>refresh_token\<close>.
\<close>

definition saved_tokens :: dict where
  "saved_tokens =
     [''access_token'' \<mapsto> JStr ''A0'', ''refresh_token'' \<mapsto> JStr ''R0'',
      ''expires_in'' \<mapsto> JInt 1800, ''user'' \<mapsto> JStr ''u@example.com'',
      ''scopes'' \<mapsto> JList [JStr ''oauth''], ''token_type'' \<mapsto> JStr ''bearer'']"

definition saved_world :: world where
  "saved_world = \<lparr>tokens_file = Some (JsonDoc saved_tokens), http_log = [], browser = []\<rparr>"

definition refreshed_tokens :: dict where
  "refreshed_tokens =
     [''access_token'' \<mapsto> JStr ''A1'', ''expires_in'' \<mapsto> JInt 900,
      ''token_type'' \<mapsto> JStr ''Bearer'']"

text \<open>
  The query of the redirect \<open>?error=access_denied\<close>, and of a request to the
  callback path that carries \<open>state\<close> only.
\<close>

definition denied_query :: query_params where
  "denied_query = [''error'' \<mapsto> [''access_denied'']]"

definition state_only_query :: query_params where
  "state_only_query = [''state'' \<mapsto> [''c3RhdGU'']]"

text \<open>
  The redirect that carries a code, and a token response without \<open>scope\<close>.
\<close>

definition granted_query :: query_params where
  "granted_query = [''code'' \<mapsto> [''abc123''], ''state'' \<mapsto> [''c3RhdGU'']]"

definition token_body :: dict where
  "token_body = [''access_token'' \<mapsto> JStr ''A1'', ''refresh_token'' \<mapsto> JStr ''R1'',
                 ''expires_in'' \<mapsto> JInt 1800, ''user'' \<mapsto> JStr ''u@example.com'']"

section \<open>Properties of the embedding endpoint\<close>

lemma len_split_examples:
  "len_split ''hello  world'' = 2" "len_split '''' = 0" "len_split '' a '' = 1"
  "len_split [CHR ''a'', CHR 0xC2, CHR 0xA0, CHR ''b''] = 2"
  "len_split [CHR ''a'', CHR 0xE2, CHR 0x80, CHR 0x83, CHR ''b'', CHR 0xE3, CHR 0x80, CHR 0x80] = 2"
  "len_split [CHR ''a'', CHR 0xC2, CHR 0xA9, CHR ''b''] = 1"
  by (simp_all add: len_split_def space_len_def ascii_space_def)

text \<open>
  Claim C8.  When the embedding capability returns one vector per input text, the
  response to a batch of \<open>N\<close> texts (\<open>N \<ge> 1\<close>) is a success whose \<open>data\<close> list has
  exactly \<open>N\<close> entries, and for every \<open>i < N\<close> the entry at position \<open>i\<close> has
  \<open>index = i\<close>, object \<open>embedding\<close> and the \<open>i\<close>-th vector the capability returned,
  that is the embedding of the \<open>i\<close>-th input.
\<close>

theorem C8_embedding_batch_indices:
  assumes "encode texts = Inr embs" and "length embs = length texts" and "1 \<le> length texts"
  shows "\<exists>resp. create_embeddings encode (Batch texts) = Inr resp
           \<and> length (data resp) = length texts
           \<and> map index (data resp) = [0..<length texts]
           \<and> map embedding (data resp) = embs
           \<and> (\<forall>i<length texts.
                 data resp ! i = \<lparr>object = ''embedding'', embedding = embs ! i, index = i\<rparr>)"
proof -
  let ?resp = "\<lparr>data = map (\<lambda>(i, e). \<lparr>object = ''embedding'', embedding = e, index = i\<rparr>)
                            (List.enumerate 0 embs),
                model = MODEL_NAME,
                usage = \<lparr>prompt_tokens = sum_list (map len_split texts),
                         total_tokens = sum_list (map len_split texts)\<rparr>\<rparr>"
  have run: "create_embeddings encode (Batch texts) = Inr ?resp"
    using assms(1) by (simp add: create_embeddings_def normalize_input_def Let_def)
  have len: "length (data ?resp) = length texts"
    using assms(2) by simp
  have idx: "map index (data ?resp) = [0..<length texts]"
    using assms(2) by (simp add: enumerate_eq_zip case_prod_beta comp_def)
  have emb: "map embedding (data ?resp) = embs"
    by (simp add: enumerate_eq_zip case_prod_beta comp_def)
  have nth: "\<forall>i<length texts.
               data ?resp ! i = \<lparr>object = ''embedding'', embedding = embs ! i, index = i\<rparr>"
    using assms(2) by (simp add: nth_enumerate_eq)
  from run len idx emb nth show ?thesis by blast
qed

theorem C8_embedding_batch_indices_witness:
  "\<exists>resp. create_embeddings (\<lambda>ts. Inr (map (\<lambda>t. [int (length t)]) ts)) (Batch [''ab'', ''c'', ''''])
            = Inr resp
         \<and> length (data resp) = 3
         \<and> map index (data resp) = [0, 1, 2]
         \<and> map embedding (data resp) = [[2], [1], [0]]"
proof -
  let ?enc = "\<lambda>ts. Inr (map (\<lambda>t. [int (length t)]) ts) :: string + int list list"
  let ?texts = "[''ab'', ''c'', '''']"
  have h1: "?enc ?texts = Inr [[2], [1], [0]]" by simp
  have h2: "length [[2], [1], [0::int]] = length ?texts" by simp
  have h3: "1 \<le> length ?texts" by simp
  have up: "[0..<3] = [0, 1, 2::nat]" by (simp add: upt_rec)
  from C8_embedding_batch_indices [of ?enc ?texts, OF h1 h2 h3] up
  show ?thesis by auto
qed

text \<open>
  Claim C9.  A request whose input is the single string \<open>s\<close> is normalised to the
  one-element list \<open>[s]\<close> before the capability is called, so its outcome (response or
  failure) is the outcome of the request whose input is the batch \<open>[s]\<close>; in particular
  the \<open>data\<close> lists are equal entry for entry.
\<close>

theorem C9_single_equals_singleton_batch:
  "normalize_input (Single s) = [s]
   \<and> normalize_input (Single s) = normalize_input (Batch [s])
   \<and> create_embeddings encode (Single s) = create_embeddings encode (Batch [s])
   \<and> map_sum id data (create_embeddings encode (Single s))
       = map_sum id data (create_embeddings encode (Batch [s]))"
  by (simp add: create_embeddings_def normalize_input_def Let_def)


section \<open>Properties of the token endpoint calls\<close>

lemma str_int_examples:
  "str_int 401 = ''401''" "str_int 200 = ''200''" "str_int 0 = ''0''" "str_int (- 7) = ''-7''"
  by (simp_all add: str_int_def)

text \<open>
  Claim C5.  \<open>exchange_code_for_token\<close> sends one POST to the token endpoint and
  none after it.  With \<open>r\<close> the response to that request: on status 200 the result
  is \<open>r.json()\<close>, so the call returns a token set \<open>d\<close> exactly when the status is 200
  and the body parses to \<open>d\<close>, and then the \<open>access_token\<close> of what is returned is the
  \<open>access_token\<close> field of the response; on every other status the call raises an
  exception whose message holds the status code and the body.
\<close>

theorem C5_exchange_code_for_token:
  assumes "r = net pf (http_log w) (exchange_request self code)"
  shows "(status_code r = 200 \<longrightarrow> fst (exchange_code_for_token pf self code w) = resp_json r)
       \<and> (\<forall>d. fst (exchange_code_for_token pf self code w) = Inr d
               \<longleftrightarrow> status_code r = 200 \<and> resp_json r = Inr d)
       \<and> (\<forall>d body. fst (exchange_code_for_token pf self code w) = Inr d \<and> resp_json r = Inr body
               \<longrightarrow> d ''access_token'' = body ''access_token'')
       \<and> (status_code r \<noteq> 200 \<longrightarrow>
             fst (exchange_code_for_token pf self code w)
               = Inl (Exception (''Token exchange failed: '' @ str_int (status_code r)
                                  @ '' - '' @ resp_text r)))
       \<and> snd (exchange_code_for_token pf self code w)
            = w\<lparr>http_log := http_log w @ [exchange_request self code]\<rparr>"
  using assms
  by (auto simp: exchange_code_for_token_def requests_send_def failure_message_def)

text \<open>
  The statuses of \<open>_make_request\<close>.  With \<open>r\<close> the response to the request sent:
  status 401 raises the exception of the expired token, which is not the exception of
  a failed request whatever status and body that one carries; every other status from
  400 up raises the exception of a failed request, whose message holds the status code
  and the body; every other status gives the outcome of \<open>r.json()\<close>.
\<close>

lemma make_request_by_status:
  assumes "r = net pf (http_log w) (client_request self method endpoint kw)"
  shows "(status_code r = 401 \<longrightarrow>
            fst (make_request pf self method endpoint kw w)
              = Inl (Exception ''Access token expired or invalid. Please refresh your tokens.'')
          \<and> (\<forall>r'. fst (make_request pf self method endpoint kw w)
                     \<noteq> Inl (Exception (failure_message ''API request failed: '' r'))))
       \<and> (status_code r \<ge> 400 \<and> status_code r \<noteq> 401 \<longrightarrow>
            fst (make_request pf self method endpoint kw w)
              = Inl (Exception (''API request failed: '' @ str_int (status_code r)
                                 @ '' - '' @ resp_text r)))
       \<and> (200 \<le> status_code r \<and> status_code r < 300 \<longrightarrow>
            fst (make_request pf self method endpoint kw w) = resp_json r
          \<and> (\<forall>body. resp_json r = Inr body \<longrightarrow>
                 fst (make_request pf self method endpoint kw w) = Inr body))"
  using assms
  by (auto simp: make_request_def requests_send_def failure_message_def)


lemma make_request_unparsed:
  assumes "r = net pf (http_log w) (client_request self method endpoint kw)"
    and "200 \<le> status_code r" and "status_code r < 300"
    and "resp_json r = Inl e"
  shows "make_request pf self method endpoint kw w
               = (Inl e, w\<lparr>http_log := http_log w @ [client_request self method endpoint kw]\<rparr>)"
proof -
  have s1: "status_code (net pf (http_log w) (client_request self method endpoint kw)) \<noteq> 401"
    using assms(1,2,3) by simp
  have s2: "\<not> 400 \<le> status_code (net pf (http_log w) (client_request self method endpoint kw))"
    using assms(1,2,3) by simp
  have s3: "resp_json (net pf (http_log w) (client_request self method endpoint kw)) = Inl e"
    using assms(1,4) by simp
  show ?thesis
    by (simp add: make_request_def requests_send_def s1 s2 s3)
qed

lemma delete_contact_unparsed:
  assumes "r = net pf (http_log w)
                 (client_request self ''DELETE'' (''/crm/v3/objects/contacts/'' @ contact_id)
                    \<lparr>kw_headers = None, kw_params = [], kw_json = None\<rparr>)"
    and "200 \<le> status_code r" and "status_code r < 300"
    and "resp_json r = Inl e"
  shows "fst (delete_contact pf self contact_id w) = False"
  unfolding delete_contact_def make_request_unparsed [OF assms] by simp

text \<open>
  Claim C6 says that every 2xx response returns the parsed body.  The last line of
  \<open>_make_request\<close> is \<open>return response.json()\<close> with nothing around it, so a 2xx
  response whose body is not JSON makes the call raise the decoder's exception instead
  of returning: no body is returned.  That is the response to the \<open>DELETE\<close> of
  \<open>delete_contact\<close>, 204 with an empty body, and \<open>delete_contact\<close> then answers
  \<open>False\<close> for a contact that was deleted.  The 401 and the other statuses from 400
  up behave as the claim says.
\<close>

theorem C6_body_less_success_raises:
  assumes "r = net pf (http_log w) (client_request self method endpoint kw)"
    and "200 \<le> status_code r" and "status_code r < 300"
    and "resp_json r = Inl e"
  shows "fst (make_request pf self method endpoint kw w) = Inl e
       \<and> (\<forall>body. fst (make_request pf self method endpoint kw w) \<noteq> Inr body)
       \<and> (method = ''DELETE'' \<and> endpoint = ''/crm/v3/objects/contacts/'' @ contact_id
            \<and> kw = \<lparr>kw_headers = None, kw_params = [], kw_json = None\<rparr>
            \<longrightarrow> fst (delete_contact pf self contact_id w) = False)"
proof -
  have run: "fst (make_request pf self method endpoint kw w) = Inl e"
    unfolding make_request_unparsed [OF assms] by simp
  have never: "\<forall>body. fst (make_request pf self method endpoint kw w) \<noteq> Inr body"
    unfolding run by simp
  have del: "method = ''DELETE'' \<and> endpoint = ''/crm/v3/objects/contacts/'' @ contact_id
            \<and> kw = \<lparr>kw_headers = None, kw_params = [], kw_json = None\<rparr>
            \<longrightarrow> fst (delete_contact pf self contact_id w) = False"
  proof (intro impI, elim conjE)
    assume m: "method = ''DELETE''" and ep: "endpoint = ''/crm/v3/objects/contacts/'' @ contact_id"
      and k: "kw = \<lparr>kw_headers = None, kw_params = [], kw_json = None\<rparr>"
    have r': "r = net pf (http_log w)
                 (client_request self ''DELETE'' (''/crm/v3/objects/contacts/'' @ contact_id)
                    \<lparr>kw_headers = None, kw_params = [], kw_json = None\<rparr>)"
      unfolding assms(1) m ep k ..
    show "fst (delete_contact pf self contact_id w) = False"
      by (rule delete_contact_unparsed [OF r' assms(2,3,4)])
  qed
  from run never del show ?thesis by (intro conjI)
qed

lemma example_oauth_init: "HubSpotOAuth example_env = Inr example_oauth"
  by (simp add: HubSpotOAuth_def example_env_def example_oauth_def not_set_def)

theorem C5_exchange_code_for_token_witness:
  "fst (exchange_code_for_token (example_platform (ok_response [''access_token'' \<mapsto> JStr ''A1'']))
          example_oauth ''code1'' new_world)
     = Inr [''access_token'' \<mapsto> JStr ''A1'']
   \<and> fst (exchange_code_for_token (example_platform (failed_response 400 ''bad code''))
            example_oauth ''code1'' new_world)
       = Inl (Exception ''Token exchange failed: 400 - bad code'')
   \<and> http_log (snd (exchange_code_for_token (example_platform (failed_response 400 ''bad code''))
                      example_oauth ''code1'' new_world))
       = [exchange_request example_oauth ''code1'']"
proof -
  let ?ok = "ok_response [''access_token'' \<mapsto> JStr ''A1'']"
  let ?bad = "failed_response 400 ''bad code''"
  have a: "?ok = net (example_platform ?ok) (http_log new_world)
                   (exchange_request example_oauth ''code1'')"
    by (simp add: example_platform_def fixed_net_def)
  have b: "?bad = net (example_platform ?bad) (http_log new_world)
                    (exchange_request example_oauth ''code1'')"
    by (simp add: example_platform_def fixed_net_def)
  have s: "str_int 400 = ''400''"
    by (simp add: str_int_def)
  from C5_exchange_code_for_token [OF a] C5_exchange_code_for_token [OF b] s
  show ?thesis
    by (simp add: ok_response_def failed_response_def new_world_def)
qed

lemma make_request_by_status_examples:
  "fst (make_request (example_platform (failed_response 401 ''expired'')) example_client
          ''GET'' ''/crm/v3/objects/contacts'' no_kwargs new_world)
     = Inl (Exception ''Access token expired or invalid. Please refresh your tokens.'')
   \<and> fst (make_request (example_platform (failed_response 404 ''not found'')) example_client
            ''GET'' ''/crm/v3/objects/contacts/7'' no_kwargs new_world)
       = Inl (Exception ''API request failed: 404 - not found'')
   \<and> fst (make_request (example_platform (ok_response [''results'' \<mapsto> JList []])) example_client
            ''GET'' ''/crm/v3/objects/contacts'' no_kwargs new_world)
       = Inr [''results'' \<mapsto> JList []]"
proof -
  let ?r1 = "failed_response 401 ''expired''"
  let ?r2 = "failed_response 404 ''not found''"
  let ?r3 = "ok_response [''results'' \<mapsto> JList []]"
  have a: "?r1 = net (example_platform ?r1) (http_log new_world)
                   (client_request example_client ''GET'' ''/crm/v3/objects/contacts'' no_kwargs)"
    by (simp add: example_platform_def fixed_net_def)
  have b: "?r2 = net (example_platform ?r2) (http_log new_world)
                   (client_request example_client ''GET'' ''/crm/v3/objects/contacts/7'' no_kwargs)"
    by (simp add: example_platform_def fixed_net_def)
  have c: "?r3 = net (example_platform ?r3) (http_log new_world)
                   (client_request example_client ''GET'' ''/crm/v3/objects/contacts'' no_kwargs)"
    by (simp add: example_platform_def fixed_net_def)
  have s: "str_int 404 = ''404''"
    by (simp add: str_int_def)
  from make_request_by_status [OF a] make_request_by_status [OF b]
       make_request_by_status [OF c] s
  show ?thesis
    by (simp add: ok_response_def failed_response_def)
qed


theorem C6_body_less_success_raises_witness:
  "fst (make_request (example_platform no_content_response) example_client
          ''DELETE'' (''/crm/v3/objects/contacts/'' @ ''7'') no_kwargs new_world)
     = Inl JSONDecodeError
   \<and> fst (delete_contact (example_platform no_content_response) example_client ''7'' new_world)
       = False"
proof -
  let ?pf = "example_platform no_content_response"
  have r: "no_content_response = net ?pf (http_log new_world)
             (client_request example_client ''DELETE'' (''/crm/v3/objects/contacts/'' @ ''7'')
                no_kwargs)"
    unfolding example_platform_def fixed_net_def by simp
  have st: "200 \<le> status_code no_content_response" "status_code no_content_response < 300"
    and js: "resp_json no_content_response = Inl JSONDecodeError"
    unfolding no_content_response_def by simp_all
  have k: "no_kwargs = \<lparr>kw_headers = None, kw_params = [], kw_json = None\<rparr>"
    by (rule no_kwargs_def)
  from C6_body_less_success_raises [OF r st js, where contact_id = "''7''"] k
  show ?thesis by blast
qed

section \<open>Properties of the token refresh\<close>

lemma refresh_access_token_frame:
  "snd (refresh_access_token pf self rt w) = w\<lparr>http_log := http_log w @ [refresh_request self rt]\<rparr>"
  by (simp add: refresh_access_token_def requests_send_def)

lemma refresh_saved_tokens_not_200:
  assumes "load_saved_tokens w = Some tokens" and "tokens ''refresh_token'' = Some rt"
    and "HubSpotOAuth getenv = Inr self"
    and "status_code (net pf (http_log w) (refresh_request self rt)) \<noteq> 200"
  shows "refresh_saved_tokens pf getenv w
           = (None, w\<lparr>http_log := http_log w @ [refresh_request self rt]\<rparr>)"
proof -
  from assms(2) have ne: "tokens \<noteq> Map.empty" by auto
  with assms show ?thesis
    by (simp add: refresh_saved_tokens_def refresh_access_token_def requests_send_def)
qed

lemma refresh_saved_tokens_200:
  assumes "load_saved_tokens w = Some tokens" and "tokens ''refresh_token'' = Some rt"
    and "HubSpotOAuth getenv = Inr self"
    and "status_code (net pf (http_log w) (refresh_request self rt)) = 200"
    and "resp_json (net pf (http_log w) (refresh_request self rt)) = Inr new_tokens"
  shows "refresh_saved_tokens pf getenv w
           = (Some (tokens ++ new_tokens),
              w\<lparr>http_log := http_log w @ [refresh_request self rt],
                tokens_file := Some (JsonDoc (tokens ++ new_tokens))\<rparr>)"
proof -
  from assms(2) have ne: "tokens \<noteq> Map.empty" by auto
  with assms show ?thesis
    by (simp add: refresh_saved_tokens_def refresh_access_token_def requests_send_def Let_def)
qed

text \<open>
  Claim C3.  A refresh attempt reads the saved \<open>refresh_token\<close>, builds the client
  and posts to the token endpoint.  When the response \<open>r\<close> has a status other than 200,
  \<open>refresh_access_token\<close> raises an exception whose message holds the status code and
  the body, \<open>refresh_saved_tokens\<close> returns \<open>None\<close>, and the credential file after the
  attempt is the file before it: the same content, read back as the same record.
\<close>

theorem C3_refresh_failure_keeps_file:
  assumes "load_saved_tokens w = Some tokens" and "tokens ''refresh_token'' = Some rt"
    and "HubSpotOAuth getenv = Inr self"
    and "r = net pf (http_log w) (refresh_request self rt)"
    and "status_code r \<noteq> 200"
  shows "fst (refresh_access_token pf self rt w)
           = Inl (Exception (''Token refresh failed: '' @ str_int (status_code r)
                              @ '' - '' @ resp_text r))
       \<and> tokens_file (snd (refresh_access_token pf self rt w)) = tokens_file w
       \<and> fst (refresh_saved_tokens pf getenv w) = None
       \<and> tokens_file (snd (refresh_saved_tokens pf getenv w)) = tokens_file w
       \<and> load_saved_tokens (snd (refresh_saved_tokens pf getenv w)) = Some tokens"
proof -
  have raised: "fst (refresh_access_token pf self rt w)
                  = Inl (Exception (''Token refresh failed: '' @ str_int (status_code r)
                                     @ '' - '' @ resp_text r))"
    using assms(4,5)
    by (simp add: refresh_access_token_def requests_send_def failure_message_def)
  have kept: "tokens_file (snd (refresh_access_token pf self rt w)) = tokens_file w"
    by (simp add: refresh_access_token_frame)
  have saved: "refresh_saved_tokens pf getenv w
                 = (None, w\<lparr>http_log := http_log w @ [refresh_request self rt]\<rparr>)"
    using assms(4,5) by (simp add: refresh_saved_tokens_not_200 [OF assms(1,2,3)])
  have reread: "load_saved_tokens (snd (refresh_saved_tokens pf getenv w)) = Some tokens"
    using assms(1) by (simp add: saved load_saved_tokens_def)
  from raised kept saved reread show ?thesis by simp
qed

lemma saved_world_loads: "load_saved_tokens saved_world = Some saved_tokens"
  by (simp add: load_saved_tokens_def saved_world_def)

lemma saved_refresh_token: "saved_tokens ''refresh_token'' = Some (JStr ''R0'')"
  by (simp add: saved_tokens_def)

theorem C3_refresh_failure_keeps_file_witness:
  "fst (refresh_access_token (example_platform (failed_response 400 ''BAD_REFRESH_TOKEN''))
          example_oauth (JStr ''R0'') saved_world)
     = Inl (Exception ''Token refresh failed: 400 - BAD_REFRESH_TOKEN'')
   \<and> fst (refresh_saved_tokens (example_platform (failed_response 400 ''BAD_REFRESH_TOKEN''))
            example_env saved_world) = None
   \<and> tokens_file (snd (refresh_saved_tokens (example_platform (failed_response 400 ''BAD_REFRESH_TOKEN''))
                         example_env saved_world))
       = Some (JsonDoc saved_tokens)"
proof -
  let ?bad = "failed_response 400 ''BAD_REFRESH_TOKEN''"
  have r: "?bad = net (example_platform ?bad) (http_log saved_world)
                    (refresh_request example_oauth (JStr ''R0''))"
    by (simp add: example_platform_def fixed_net_def)
  have st: "status_code ?bad \<noteq> 200"
    by (simp add: failed_response_def)
  have s: "str_int 400 = ''400''"
    by (simp add: str_int_def)
  from C3_refresh_failure_keeps_file
         [OF saved_world_loads saved_refresh_token example_oauth_init r st] s
  show ?thesis
    by (simp add: failed_response_def saved_world_def)
qed

text \<open>
  Claim C4, as stated, fails: the merge is \<open>tokens.update(new_tokens)\<close>, which writes
  every field of the response.  A 200 response without \<open>refresh_token\<close> that carries
  \<open>token_type\<close> beside \<open>access_token\<close> and \<open>expires_in\<close> leaves the prior
  \<open>refresh_token\<close> in place and replaces the saved \<open>token_type\<close> as well.
\<close>

theorem C4_only_two_fields_counterexample:
  "refreshed_tokens ''refresh_token'' = None
   \<and> tokens_file (snd (refresh_saved_tokens (example_platform (ok_response refreshed_tokens))
                         example_env saved_world))
       = Some (JsonDoc (saved_tokens ++ refreshed_tokens))
   \<and> (saved_tokens ++ refreshed_tokens) ''refresh_token'' = saved_tokens ''refresh_token''
   \<and> saved_tokens ''token_type'' = Some (JStr ''bearer'')
   \<and> (saved_tokens ++ refreshed_tokens) ''token_type'' = Some (JStr ''Bearer'')
   \<and> (saved_tokens ++ refreshed_tokens) ''token_type'' \<noteq> saved_tokens ''token_type''"
proof -
  let ?pf = "example_platform (ok_response refreshed_tokens)"
  have st: "status_code (net ?pf (http_log saved_world)
                           (refresh_request example_oauth (JStr ''R0''))) = 200"
    by (simp add: example_platform_def fixed_net_def ok_response_def)
  have js: "resp_json (net ?pf (http_log saved_world)
                         (refresh_request example_oauth (JStr ''R0''))) = Inr refreshed_tokens"
    by (simp add: example_platform_def fixed_net_def ok_response_def)
  have run: "tokens_file (snd (refresh_saved_tokens ?pf example_env saved_world))
               = Some (JsonDoc (saved_tokens ++ refreshed_tokens))"
    by (simp add: refresh_saved_tokens_200
                    [OF saved_world_loads saved_refresh_token example_oauth_init st js])
  have fields: "refreshed_tokens ''refresh_token'' = None"
    "(saved_tokens ++ refreshed_tokens) ''refresh_token'' = saved_tokens ''refresh_token''"
    "saved_tokens ''token_type'' = Some (JStr ''bearer'')"
    "(saved_tokens ++ refreshed_tokens) ''token_type'' = Some (JStr ''Bearer'')"
    by (simp_all add: saved_tokens_def refreshed_tokens_def map_add_def)
  from run fields show ?thesis by simp
qed

text \<open>
  Claim C4, amended.  For every 200 refresh response whose body parses to
  \<open>new_tokens\<close>, the record written to the credential file is the saved record
  updated with \<open>new_tokens\<close>: every field the response carries, \<open>access_token\<close> and
  \<open>expires_in\<close> among them, has the response's value, and every field the response
  does not carry keeps its saved value.  So a response without \<open>refresh_token\<close>
  leaves the saved \<open>refresh_token\<close> unchanged, a response with it replaces it, and
  a response that carries \<open>access_token\<close> and \<open>expires_in\<close> only replaces those two
  fields only.
\<close>

theorem C4_refresh_merges_response_fields:
  assumes "load_saved_tokens w = Some tokens" and "tokens ''refresh_token'' = Some rt"
    and "HubSpotOAuth getenv = Inr self"
    and "r = net pf (http_log w) (refresh_request self rt)"
    and "status_code r = 200" and "resp_json r = Inr new_tokens"
  shows "\<exists>merged.
           fst (refresh_saved_tokens pf getenv w) = Some merged
         \<and> tokens_file (snd (refresh_saved_tokens pf getenv w)) = Some (JsonDoc merged)
         \<and> (new_tokens ''refresh_token'' = None \<longrightarrow> merged ''refresh_token'' = Some rt)
         \<and> (\<forall>v. new_tokens ''refresh_token'' = Some v \<longrightarrow> merged ''refresh_token'' = Some v)
         \<and> (\<forall>k v. new_tokens k = Some v \<longrightarrow> merged k = Some v)
         \<and> (\<forall>k. new_tokens k = None \<longrightarrow> merged k = tokens k)
         \<and> (dom new_tokens = {''access_token'', ''expires_in''} \<longrightarrow>
              merged = tokens(''access_token'' := new_tokens ''access_token'',
                              ''expires_in'' := new_tokens ''expires_in''))"
proof -
  have run: "refresh_saved_tokens pf getenv w
               = (Some (tokens ++ new_tokens),
                  w\<lparr>http_log := http_log w @ [refresh_request self rt],
                    tokens_file := Some (JsonDoc (tokens ++ new_tokens))\<rparr>)"
    using assms(4,5,6) by (simp add: refresh_saved_tokens_200 [OF assms(1,2,3)])
  have keep: "new_tokens ''refresh_token'' = None \<longrightarrow> (tokens ++ new_tokens) ''refresh_token'' = Some rt"
    using assms(2) by (simp add: map_add_def)
  have repl: "\<forall>k v. new_tokens k = Some v \<longrightarrow> (tokens ++ new_tokens) k = Some v"
    by (simp add: map_add_def)
  have frame: "\<forall>k. new_tokens k = None \<longrightarrow> (tokens ++ new_tokens) k = tokens k"
    by (simp add: map_add_def)
  have two: "dom new_tokens = {''access_token'', ''expires_in''} \<longrightarrow>
               tokens ++ new_tokens = tokens(''access_token'' := new_tokens ''access_token'',
                                            ''expires_in'' := new_tokens ''expires_in'')"
  proof
    assume d: "dom new_tokens = {''access_token'', ''expires_in''}"
    have at: "''access_token'' \<in> dom new_tokens" and ei: "''expires_in'' \<in> dom new_tokens"
      unfolding d by blast+
    from at obtain a where a: "new_tokens ''access_token'' = Some a" by blast
    from ei obtain e where e: "new_tokens ''expires_in'' = Some e" by blast
    have other: "new_tokens k = None" if "k \<noteq> ''access_token''" and "k \<noteq> ''expires_in''" for k
    proof -
      from that have "k \<notin> dom new_tokens" unfolding d by blast
      then show ?thesis by blast
    qed
    show "tokens ++ new_tokens = tokens(''access_token'' := new_tokens ''access_token'',
                                       ''expires_in'' := new_tokens ''expires_in'')"
    proof
      fix k
      consider "k = ''access_token''" | "k = ''expires_in''"
        | "k \<noteq> ''access_token''" "k \<noteq> ''expires_in''" by blast
      then show "(tokens ++ new_tokens) k
              = (tokens(''access_token'' := new_tokens ''access_token'',
                        ''expires_in'' := new_tokens ''expires_in'')) k"
      proof cases
        case 1
        then show ?thesis by (simp add: map_add_def a)
      next
        case 2
        then show ?thesis by (simp add: map_add_def e)
      next
        case 3
        then show ?thesis by (simp add: map_add_def other)
      qed
    qed
  qed
  have res: "fst (refresh_saved_tokens pf getenv w) = Some (tokens ++ new_tokens)"
    "tokens_file (snd (refresh_saved_tokens pf getenv w)) = Some (JsonDoc (tokens ++ new_tokens))"
    by (simp_all add: run)
  have incl: "\<forall>v. new_tokens ''refresh_token'' = Some v \<longrightarrow>
                (tokens ++ new_tokens) ''refresh_token'' = Some v"
    using repl by blast
  show ?thesis
    by (rule exI [of _ "tokens ++ new_tokens"]) (intro conjI res keep incl repl frame two)
qed

theorem C4_refresh_merges_response_fields_witness:
  "\<exists>merged.
     fst (refresh_saved_tokens (example_platform (ok_response refreshed_tokens))
            example_env saved_world) = Some merged
   \<and> tokens_file (snd (refresh_saved_tokens (example_platform (ok_response refreshed_tokens))
                         example_env saved_world)) = Some (JsonDoc merged)
   \<and> merged ''refresh_token'' = Some (JStr ''R0'')
   \<and> merged ''access_token'' = Some (JStr ''A1'')
   \<and> merged ''expires_in'' = Some (JInt 900)
   \<and> merged ''user'' = Some (JStr ''u@example.com'')"
proof -
  let ?pf = "example_platform (ok_response refreshed_tokens)"
  have r: "ok_response refreshed_tokens
             = net ?pf (http_log saved_world) (refresh_request example_oauth (JStr ''R0''))"
    by (simp add: example_platform_def fixed_net_def)
  have st: "status_code (ok_response refreshed_tokens) = 200"
    by (simp add: ok_response_def)
  have js: "resp_json (ok_response refreshed_tokens) = Inr refreshed_tokens"
    by (simp add: ok_response_def)
  have new: "refreshed_tokens ''refresh_token'' = None"
    "refreshed_tokens ''access_token'' = Some (JStr ''A1'')"
    "refreshed_tokens ''expires_in'' = Some (JInt 900)"
    "refreshed_tokens ''user'' = None"
    by (simp_all add: refreshed_tokens_def)
  have old: "saved_tokens ''user'' = Some (JStr ''u@example.com'')"
    by (simp add: saved_tokens_def)
  from C4_refresh_merges_response_fields
         [OF saved_world_loads saved_refresh_token example_oauth_init r st js]
  obtain merged where m1: "fst (refresh_saved_tokens ?pf example_env saved_world) = Some merged"
    and m2: "tokens_file (snd (refresh_saved_tokens ?pf example_env saved_world)) = Some (JsonDoc merged)"
    and m3: "refreshed_tokens ''refresh_token'' = None \<longrightarrow> merged ''refresh_token'' = Some (JStr ''R0'')"
    and m4: "\<forall>k v. refreshed_tokens k = Some v \<longrightarrow> merged k = Some v"
    and m5: "\<forall>k. refreshed_tokens k = None \<longrightarrow> merged k = saved_tokens k"
    by (elim exE conjE)
  from m3 new(1) have a: "merged ''refresh_token'' = Some (JStr ''R0'')" by simp
  from m4 new(2) have b: "merged ''access_token'' = Some (JStr ''A1'')" by blast
  from m4 new(3) have c: "merged ''expires_in'' = Some (JInt 900)" by blast
  from m5 new(4) old have d: "merged ''user'' = Some (JStr ''u@example.com'')" by simp
  show ?thesis
    by (rule exI [of _ merged]) (intro conjI m1 m2 a b c d)
qed


section \<open>Properties of the callback listener\<close>

lemma do_GET_neither:
  assumes "query_params ''code'' = None" and "query_params ''error'' = None"
  shows "do_GET query_params server = Inr (start_callback_server, None)"
  using assms by (simp add: do_GET_def start_callback_server_def)

lemma serve_neither:
  assumes "query_params ''code'' = None" and "query_params ''error'' = None"
  shows "serve server query_params = start_callback_server"
  by (simp add: serve_def do_GET_neither [OF assms])

lemma foldl_serve_neither:
  assumes "\<forall>q\<in>set reqs. q ''code'' = None \<and> q ''error'' = None"
  shows "foldl serve start_callback_server reqs = start_callback_server"
  using assms by (induction reqs) (simp_all add: serve_neither)

lemma waiting_start: "waiting start_callback_server"
  by (simp add: waiting_def start_callback_server_def)

lemma wait_neither:
  assumes "\<forall>reqs\<in>set arrivals. \<forall>q\<in>set reqs. q ''code'' = None \<and> q ''error'' = None"
  shows "wait_for_callback start_callback_server arrivals = None"
  using assms by (induction arrivals) (simp_all add: waiting_start foldl_serve_neither)

lemma do_GET_error:
  assumes "query_params ''code'' = None" and "query_params ''error'' = Some (e # others)"
  shows "do_GET query_params server
     = Inr (\<lparr>server_auth_code = None, server_state = None, server_error = Some e\<rparr>,
            Some \<lparr>reply_status = 400, reply_headers = [(''Content-type'', ''text/html'')],
                  reply_body = error_page e\<rparr>)"
  using assms by (simp add: do_GET_def)

lemma serve_error:
  assumes "query_params ''code'' = None" and "query_params ''error'' = Some (e # others)"
  shows "serve server query_params
     = \<lparr>server_auth_code = None, server_state = None, server_error = Some e\<rparr>"
  by (simp add: serve_def do_GET_error [OF assms])

lemma wait_resolved: "\<not> waiting server \<Longrightarrow> wait_for_callback server later = Some server"
  by (cases later) simp_all

lemma wait_idle:
  "wait_for_callback start_callback_server (replicate n [] @ rest)
     = wait_for_callback start_callback_server rest"
  by (induction n) (simp_all add: waiting_start)

lemma wait_error:
  assumes "query_params ''code'' = None" and "query_params ''error'' = Some (e # others)"
  shows "wait_for_callback start_callback_server
           (replicate n [] @ (earlier @ [query_params]) # later)
     = Some \<lparr>server_auth_code = None, server_state = None, server_error = Some e\<rparr>"
proof -
  let ?s = "\<lparr>server_auth_code = None, server_state = None, server_error = Some e\<rparr>"
  have res: "\<not> waiting ?s"
    by (simp add: waiting_def)
  have "wait_for_callback start_callback_server ((earlier @ [query_params]) # later)
          = wait_for_callback ?s later"
    by (simp add: waiting_start serve_error [OF assms])
  with res show ?thesis
    by (simp add: wait_idle wait_resolved)
qed

lemma flow_error:
  assumes "HubSpotOAuth getenv = Inr oauth_client"
    and "query_params ''code'' = None" and "query_params ''error'' = Some (e # others)"
    and "e \<noteq> []"
  shows "interactive_oauth_flow pf getenv (replicate n [] @ (earlier @ [query_params]) # later) w
           = Some (None, w\<lparr>browser := browser w @ [get_authorization_url pf oauth_client None None]\<rparr>)"
  using assms(1,4)
  by (simp add: interactive_oauth_flow_def wait_error [OF assms(2,3)] is_set_def Let_def)

lemma flow_neither:
  assumes "HubSpotOAuth getenv = Inr oauth_client"
    and "\<forall>reqs\<in>set arrivals. \<forall>q\<in>set reqs. q ''code'' = None \<and> q ''error'' = None"
  shows "interactive_oauth_flow pf getenv arrivals w = None"
  using assms(1)
  by (simp add: interactive_oauth_flow_def wait_neither [OF assms(2)] Let_def)


text \<open>
  Claim C1 says that a request with neither \<open>code\<close> nor \<open>error\<close> is answered with
  status 400 and is reported to the orchestrator as an error.  \<open>do_GET\<close> has no branch
  for that request: it writes no response at all and sets the three attributes of the
  server to \<open>None\<close>, so the wait loop goes on waiting; when such requests are all
  that arrives, the loop and the flow never return.
\<close>

theorem C1_no_code_no_error_gets_no_response:
  assumes "query_params ''code'' = None" and "query_params ''error'' = None"
  shows "do_GET query_params server
           = Inr (\<lparr>server_auth_code = None, server_state = None, server_error = None\<rparr>, None)
       \<and> server_error (serve server query_params) \<noteq> Some ''missing_code_or_error''
       \<and> waiting (serve server query_params)
       \<and> wait_for_callback start_callback_server (replicate n [query_params]) = None
       \<and> (HubSpotOAuth getenv = Inr oauth_client \<longrightarrow>
            interactive_oauth_flow pf getenv (replicate n [query_params]) w = None)"
proof -
  have reqs: "\<forall>reqs\<in>set (replicate n [query_params]).
                \<forall>q\<in>set reqs. q ''code'' = None \<and> q ''error'' = None"
    using assms by simp
  have a: "do_GET query_params server
             = Inr (\<lparr>server_auth_code = None, server_state = None, server_error = None\<rparr>, None)"
    using do_GET_neither [OF assms] by (simp add: start_callback_server_def)
  have b: "serve server query_params = start_callback_server"
    by (rule serve_neither [OF assms])
  have c: "server_error (serve server query_params) \<noteq> Some ''missing_code_or_error''"
    by (simp add: b start_callback_server_def)
  have d: "waiting (serve server query_params)"
    by (simp add: b waiting_start)
  have e: "wait_for_callback start_callback_server (replicate n [query_params]) = None"
    by (rule wait_neither [OF reqs])
  have f: "HubSpotOAuth getenv = Inr oauth_client \<longrightarrow>
             interactive_oauth_flow pf getenv (replicate n [query_params]) w = None"
    using flow_neither [OF _ reqs] by blast
  from a c d e f show ?thesis by blast
qed

theorem C1_no_code_no_error_gets_no_response_witness:
  "do_GET state_only_query start_callback_server
     = Inr (\<lparr>server_auth_code = None, server_state = None, server_error = None\<rparr>, None)
   \<and> wait_for_callback start_callback_server [[state_only_query], [state_only_query]] = None
   \<and> interactive_oauth_flow (example_platform (ok_response Map.empty)) example_env
        [[state_only_query], [state_only_query]] new_world = None"
proof -
  have h1: "state_only_query ''code'' = None" and h2: "state_only_query ''error'' = None"
    by (simp_all add: state_only_query_def)
  have two: "replicate 2 [state_only_query] = [[state_only_query], [state_only_query]]"
    by (simp add: numeral_2_eq_2)
  from C1_no_code_no_error_gets_no_response
         [OF h1 h2, where server = start_callback_server and n = 2 and getenv = example_env
            and oauth_client = example_oauth
            and pf = "example_platform (ok_response Map.empty)" and w = new_world]
       example_oauth_init two
  show ?thesis by simp
qed

text \<open>
  The redirect served last in its interval.  A redirect whose query carries
  \<open>error=access_denied\<close> and no \<open>code\<close> is answered with status 400 and leaves the
  server with \<open>error = "access_denied"\<close> and no \<open>auth_code\<close>, whatever the server
  held before.  From that state the wait loop returns at its next test.  When the
  redirect is the last request served in its interval, \<open>interactive_oauth_flow\<close>
  returns \<open>None\<close> having sent no request and left the credential file as it was.
\<close>

lemma access_denied_last_in_interval:
  assumes "query_params ''code'' = None"
    and "query_params ''error'' = Some (''access_denied'' # others)"
  shows "do_GET query_params server
     = Inr (\<lparr>server_auth_code = None, server_state = None, server_error = Some ''access_denied''\<rparr>,
            Some \<lparr>reply_status = 400, reply_headers = [(''Content-type'', ''text/html'')],
                  reply_body = error_page ''access_denied''\<rparr>)
   \<and> wait_for_callback (serve server query_params) later = Some (serve server query_params)
   \<and> (HubSpotOAuth getenv = Inr oauth_client \<longrightarrow>
        (\<exists>w'. interactive_oauth_flow pf getenv
                 (replicate n [] @ (earlier @ [query_params]) # later) w = Some (None, w')
            \<and> http_log w' = http_log w
            \<and> tokens_file w' = tokens_file w))"
proof -
  have res: "\<not> waiting (serve server query_params)"
    by (simp add: serve_error [OF assms] waiting_def)
  have flow: "HubSpotOAuth getenv = Inr oauth_client \<longrightarrow>
        (\<exists>w'. interactive_oauth_flow pf getenv
                 (replicate n [] @ (earlier @ [query_params]) # later) w = Some (None, w')
            \<and> http_log w' = http_log w
            \<and> tokens_file w' = tokens_file w)"
    by (simp add: flow_error [OF _ assms])
  from do_GET_error [OF assms] wait_resolved [OF res] flow show ?thesis by blast
qed

lemma access_denied_last_in_interval_example:
  "do_GET denied_query start_callback_server
     = Inr (\<lparr>server_auth_code = None, server_state = None, server_error = Some ''access_denied''\<rparr>,
            Some \<lparr>reply_status = 400, reply_headers = [(''Content-type'', ''text/html'')],
                  reply_body = error_page ''access_denied''\<rparr>)
   \<and> (\<exists>w'. interactive_oauth_flow (example_platform (ok_response Map.empty)) example_env
              [[], [state_only_query, denied_query], []] new_world = Some (None, w')
          \<and> http_log w' = [] \<and> tokens_file w' = None)"
proof -
  let ?pf = "example_platform (ok_response Map.empty)"
  have h1: "denied_query ''code'' = None"
    and h2: "denied_query ''error'' = Some (''access_denied'' # [])"
    by (simp_all add: denied_query_def)
  have arr: "replicate 1 [] @ ([state_only_query] @ [denied_query]) # [[]]
               = [[], [state_only_query, denied_query], []]"
    by simp
  have w: "http_log new_world = []" "tokens_file new_world = None"
    by (simp_all add: new_world_def)
  from access_denied_last_in_interval
         [OF h1 h2, where server = start_callback_server and later = "[[]]"
            and getenv = example_env and oauth_client = example_oauth and pf = ?pf and n = 1
            and earlier = "[state_only_query]" and w = new_world]
       example_oauth_init
  show ?thesis
    unfolding arr w by blast
qed

lemma exchange_code_log:
  "http_log (snd (exchange_code_for_token pf c code w)) = http_log w @ [exchange_request c code]"
  by (simp add: exchange_code_for_token_def requests_send_def)

lemma get_user_info_log:
  "\<exists>rq. http_log (snd (get_user_info pf c tok w)) = http_log w @ [rq]"
  by (simp add: get_user_info_def requests_send_def)

lemma test_api_connection_log:
  "\<exists>rq. http_log (snd (test_api_connection pf c tok w)) = http_log w @ [rq]"
  by (simp add: test_api_connection_def requests_send_def)

lemma exchange_code_logD:
  "exchange_code_for_token pf c code w = (res, w1)
     \<Longrightarrow> http_log w1 = http_log w @ [exchange_request c code]"
  using exchange_code_log [of pf c code w] by simp

lemma get_user_info_logD:
  "get_user_info pf c tok w = (res, w1) \<Longrightarrow> \<exists>rq. http_log w1 = http_log w @ [rq]"
  using get_user_info_log [of pf c tok w] by simp

lemma test_api_connection_logD:
  "test_api_connection pf c tok w = (res, w1) \<Longrightarrow> \<exists>rq. http_log w1 = http_log w @ [rq]"
  using test_api_connection_log [of pf c tok w] by simp

lemma exchange_and_save_sends:
  "exchange_request c code \<in> set (http_log (snd (exchange_and_save pf c code w)))"
proof -
  obtain res w1 where ex: "exchange_code_for_token pf c code w = (res, w1)"
    by (cases "exchange_code_for_token pf c code w")
  have l1: "exchange_request c code \<in> set (http_log w1)"
    using exchange_code_logD [OF ex] by simp
  show ?thesis
  proof (cases res)
    case (Inl e)
    with ex l1 show ?thesis by (simp add: exchange_and_save_def)
  next
    case (Inr token_data)
    show ?thesis
    proof (cases "slice20 (dict_get_default token_data ''access_token'' (JStr ''N/A''))")
      case (Inl e)
      with ex Inr l1 show ?thesis by (simp add: exchange_and_save_def)
    next
      case s1: (Inr a)
      show ?thesis
      proof (cases "slice20 (dict_get_default token_data ''refresh_token'' (JStr ''N/A''))")
        case (Inl e)
        with ex Inr s1 l1 show ?thesis by (simp add: exchange_and_save_def)
      next
        case s2: (Inr b)
        show ?thesis
        proof (cases "dict_index token_data ''access_token''")
          case (Inl e)
          with ex Inr s1 s2 l1 show ?thesis by (simp add: exchange_and_save_def)
        next
          case at: (Inr tok)
          obtain ures w2 where ui: "get_user_info pf c tok w1 = (ures, w2)"
            by (cases "get_user_info pf c tok w1")
          from get_user_info_logD [OF ui] l1 have l2: "exchange_request c code \<in> set (http_log w2)"
            by auto
          show ?thesis
          proof (cases ures)
            case (Inl e)
            with ex Inr s1 s2 at ui l2 show ?thesis by (simp add: exchange_and_save_def)
          next
            case u: (Inr user_info)
            obtain api w3 where ta: "test_api_connection pf c tok w2 = (api, w3)"
              by (cases "test_api_connection pf c tok w2")
            from test_api_connection_logD [OF ta] l2
            have l3: "exchange_request c code \<in> set (http_log w3)"
              by auto
            show ?thesis
              using ex Inr s1 s2 at ui u ta l3
              by (cases "json_split_space (dict_get_default token_data ''scope'' (JStr []))")
                 (simp_all add: exchange_and_save_def Let_def)
          qed
        qed
      qed
    qed
  qed
qed

lemma serve_granted:
  "serve server granted_query
     = \<lparr>server_auth_code = Some ''abc123'', server_state = Some ''c3RhdGU'',
        server_error = None\<rparr>"
  by (simp add: serve_def do_GET_def granted_query_def)

lemma wait_single_interval:
  "wait_for_callback start_callback_server (replicate n [] @ [reqs])
     = (if waiting (foldl serve start_callback_server reqs) then None
        else Some (foldl serve start_callback_server reqs))"
  by (simp add: wait_idle waiting_start)

text \<open>
  Claim C2 says that after a redirect with \<open>error=access_denied\<close> the wait loop
  ends and the token endpoint is never called.  The listener does answer the redirect
  with status 400 and record the error.  But every request gets a new handler whose
  attributes are \<open>None\<close>, and the last lines of \<open>do_GET\<close> copy them onto the
  server whatever the request was.  So a request without \<open>code\<close> and \<open>error\<close>
  served after the redirect and before the orchestrator's next test (the browser
  asking for \<open>/favicon.ico\<close>) erases the recorded error, and when nothing else
  arrives the loop never ends; and a request with a \<open>code\<close> served in that time
  replaces the error, and the flow sends the code to the token endpoint.
\<close>

theorem C2_later_request_overrides_access_denied:
  assumes "query_params ''code'' = None"
    and "query_params ''error'' = Some (''access_denied'' # others)"
    and "next_query ''code'' = None" and "next_query ''error'' = None"
    and "HubSpotOAuth getenv = Inr oauth_client"
  shows "do_GET query_params server
     = Inr (\<lparr>server_auth_code = None, server_state = None, server_error = Some ''access_denied''\<rparr>,
            Some \<lparr>reply_status = 400, reply_headers = [(''Content-type'', ''text/html'')],
                  reply_body = error_page ''access_denied''\<rparr>)
   \<and> serve (serve server query_params) next_query
       = \<lparr>server_auth_code = None, server_state = None, server_error = None\<rparr>
   \<and> interactive_oauth_flow pf getenv (replicate n [] @ [[query_params, next_query]]) w = None
   \<and> (\<exists>result w'.
         interactive_oauth_flow pf getenv (replicate n [] @ [[query_params, granted_query]]) w
           = Some (result, w')
       \<and> exchange_request oauth_client ''abc123'' \<in> set (http_log w'))"
proof -
  let ?w0 = "w\<lparr>browser := browser w @ [get_authorization_url pf oauth_client None None]\<rparr>"
  let ?granted = "\<lparr>server_auth_code = Some ''abc123'', server_state = Some ''c3RhdGU'',
                   server_error = None\<rparr>"
  have a: "do_GET query_params server
     = Inr (\<lparr>server_auth_code = None, server_state = None, server_error = Some ''access_denied''\<rparr>,
            Some \<lparr>reply_status = 400, reply_headers = [(''Content-type'', ''text/html'')],
                  reply_body = error_page ''access_denied''\<rparr>)"
    by (rule do_GET_error [OF assms(1,2)])
  have erased: "serve s next_query = start_callback_server" for s
    by (rule serve_neither [OF assms(3,4)])
  have b: "serve (serve server query_params) next_query
       = \<lparr>server_auth_code = None, server_state = None, server_error = None\<rparr>"
    by (simp add: erased start_callback_server_def)
  have w1: "wait_for_callback start_callback_server (replicate n [] @ [[query_params, next_query]])
              = None"
    by (simp add: wait_single_interval erased waiting_start)
  have c: "interactive_oauth_flow pf getenv (replicate n [] @ [[query_params, next_query]]) w = None"
    unfolding interactive_oauth_flow_def by (simp add: assms(5) w1 Let_def)
  have ng: "\<not> waiting ?granted"
    by (simp add: waiting_def)
  have w2: "wait_for_callback start_callback_server (replicate n [] @ [[query_params, granted_query]])
              = Some ?granted"
    by (simp add: wait_single_interval serve_granted ng)
  obtain res w' where ex: "exchange_and_save pf oauth_client ''abc123'' ?w0 = (res, w')"
    by (cases "exchange_and_save pf oauth_client ''abc123'' ?w0")
  have sent: "exchange_request oauth_client ''abc123'' \<in> set (http_log w')"
    using exchange_and_save_sends [of oauth_client "''abc123''" pf ?w0] ex by simp
  have run: "interactive_oauth_flow pf getenv (replicate n [] @ [[query_params, granted_query]]) w
          = Some (case res of Inl e \<Rightarrow> None | Inr result \<Rightarrow> Some result, w')"
    unfolding interactive_oauth_flow_def
    by (cases res) (simp_all add: assms(5) w2 Let_def is_set_def ex)
  from run sent have d: "\<exists>result w'.
         interactive_oauth_flow pf getenv (replicate n [] @ [[query_params, granted_query]]) w
           = Some (result, w')
       \<and> exchange_request oauth_client ''abc123'' \<in> set (http_log w')"
    by blast
  from a b c d show ?thesis by (intro conjI)
qed

theorem C2_later_request_overrides_access_denied_witness:
  "interactive_oauth_flow (example_platform (ok_response token_body)) example_env
     [[denied_query, state_only_query]] new_world = None
   \<and> (\<exists>result w'.
         interactive_oauth_flow (example_platform (ok_response token_body)) example_env
           [[denied_query, granted_query]] new_world = Some (result, w')
       \<and> exchange_request example_oauth ''abc123'' \<in> set (http_log w'))"
proof -
  have h1: "denied_query ''code'' = None"
    and h2: "denied_query ''error'' = Some (''access_denied'' # [])"
    by (simp_all add: denied_query_def)
  have h3: "state_only_query ''code'' = None" and h4: "state_only_query ''error'' = None"
    by (simp_all add: state_only_query_def)
  have arr: "replicate 0 [] @ [[denied_query, q]] = [[denied_query, q]]" for q :: query_params
    by simp
  from C2_later_request_overrides_access_denied
         [OF h1 h2 h3 h4 example_oauth_init,
          where pf = "example_platform (ok_response token_body)" and n = 0 and w = new_world]
  show ?thesis
    unfolding arr by blast
qed

section \<open>Properties of the authorization URL\<close>

lemma quote_plus_Nil: "quote_plus [] = []"
  by (simp add: quote_plus_def)

lemma quote_plus_Cons: "quote_plus (c # cs) = quote_char c @ quote_plus cs"
  by (simp add: quote_plus_def)

lemma quote_plus_append: "quote_plus (a @ b) = quote_plus a @ quote_plus b"
  by (simp add: quote_plus_def)

lemma hex_digit_safe: "always_safe (hex_digit n)"
proof -
  have "hex_digit n \<in> set ''0123456789ABCDEF''"
    unfolding hex_digit_def by (rule nth_mem) simp
  then show ?thesis
    by (auto simp: always_safe_def)
qed

lemma quote_char_chars: "c' \<in> set (quote_char c) \<Longrightarrow> query_char c'"
  by (auto simp: quote_char_def query_char_def hex_digit_safe split: if_splits)

lemma quote_plus_chars: "\<forall>c\<in>set (quote_plus s). query_char c"
  by (auto simp: quote_plus_def quote_char_chars)

lemma hex_digit_inj:
  assumes "m < 16" and "n < 16" and "hex_digit m = hex_digit n"
  shows "m = n"
proof -
  have d: "distinct ''0123456789ABCDEF''" by simp
  have l: "length ''0123456789ABCDEF'' = 16" by simp
  from assms have "''0123456789ABCDEF'' ! m = ''0123456789ABCDEF'' ! n"
    by (simp add: hex_digit_def)
  with d l assms(1,2) show ?thesis
    by (simp add: nth_eq_iff_index_eq)
qed

lemma not_safe_special: "\<not> always_safe CHR ''+''" "\<not> always_safe CHR ''%''" "\<not> always_safe CHR '' ''"
  by (simp_all add: always_safe_def)

lemma quote_char_cases:
  "(always_safe c \<and> quote_char c = [c])
   \<or> (c = CHR '' '' \<and> quote_char c = ''+'')
   \<or> (\<not> always_safe c \<and> c \<noteq> CHR '' ''
        \<and> quote_char c = [CHR ''%'', hex_digit (of_char c div 16), hex_digit (of_char c mod 16)])"
  by (auto simp: quote_char_def not_safe_special)

lemma of_char_lt_256: "(of_char c :: nat) < 256"
  by (cases c) (simp add: of_char_def)

lemma quote_char_prefix_inj:
  assumes "quote_char c @ xs = quote_char d @ ys"
  shows "c = d \<and> xs = ys"
proof -
  have bound: "(of_char x :: nat) div 16 < 16" for x
    using of_char_lt_256 [of x] by (intro less_mult_imp_div_less) simp
  have cdiv: "(of_char c :: nat) div 16 < 16" "(of_char c :: nat) mod 16 < 16"
    by (simp_all add: bound)
  have ddiv: "(of_char d :: nat) div 16 < 16" "(of_char d :: nat) mod 16 < 16"
    by (simp_all add: bound)
  from quote_char_cases [of c] quote_char_cases [of d] assms
  consider (same) "c = d" "xs = ys"
    | (hex) "hex_digit (of_char c div 16) = hex_digit (of_char d div 16)"
            "hex_digit (of_char c mod 16) = hex_digit (of_char d mod 16)" "xs = ys"
    by (auto simp: not_safe_special)
  then show ?thesis
  proof cases
    case same
    then show ?thesis by simp
  next
    case hex
    have a: "(of_char c :: nat) div 16 = of_char d div 16"
      using hex_digit_inj [OF cdiv(1) ddiv(1) hex(1)] .
    have b: "(of_char c :: nat) mod 16 = of_char d mod 16"
      using hex_digit_inj [OF cdiv(2) ddiv(2) hex(2)] .
    from a b have "(of_char c :: nat) = of_char d"
      by (metis div_mult_mod_eq)
    then have "c = d" by simp
    with hex(3) show ?thesis by simp
  qed
qed

lemma quote_plus_prefix_free:
  "quote_plus s @ xs = quote_plus t @ ys \<Longrightarrow> \<forall>c\<in>set (take 1 xs @ take 1 ys). \<not> query_char c \<Longrightarrow> s = t \<and> xs = ys"
proof (induction s arbitrary: t)
  case Nil
  show ?case
  proof (cases t)
    case Nil
    with Nil.prems show ?thesis by (simp add: quote_plus_Nil)
  next
    case (Cons d ds)
    with Nil.prems(1) have eq: "xs = quote_char d @ quote_plus ds @ ys"
      by (simp add: quote_plus_Nil quote_plus_Cons)
    from quote_char_cases [of d] obtain e es where "quote_char d = e # es" by auto
    moreover from this have "query_char e"
      using quote_char_chars [of e d] by simp
    ultimately show ?thesis
      using eq Nil.prems(2) by auto
  qed
next
  case (Cons c cs)
  show ?case
  proof (cases t)
    case Nil
    with Cons.prems(1) have eq: "ys = quote_char c @ quote_plus cs @ xs"
      by (simp add: quote_plus_Nil quote_plus_Cons)
    from quote_char_cases [of c] obtain e es where "quote_char c = e # es" by auto
    moreover from this have "query_char e"
      using quote_char_chars [of e c] by simp
    ultimately show ?thesis
      using eq Cons.prems(2) by auto
  next
    case (Cons d ds)
    with Cons.prems(1) have "quote_char c @ (quote_plus cs @ xs) = quote_char d @ (quote_plus ds @ ys)"
      by (simp add: quote_plus_Cons)
    then have "c = d" and rest: "quote_plus cs @ xs = quote_plus ds @ ys"
      using quote_char_prefix_inj by blast+
    from Cons.IH [OF rest Cons.prems(2)] \<open>c = d\<close> Cons show ?thesis by simp
  qed
qed

lemma quote_plus_inj: "quote_plus s = quote_plus t \<Longrightarrow> s = t"
  using quote_plus_prefix_free [of s "[]" t "[]"] by simp


lemma authorization_url_form:
  "get_authorization_url pf self (Some scs) (Some st)
     = authorize_url self @ ''?client_id='' @ quote_plus (client_id self)
       @ ''&redirect_uri='' @ quote_plus (redirect_uri self)
       @ ''&scope='' @ quote_plus (py_join '' '' scs)
       @ ''&response_type=code'' @ ''&state='' @ quote_plus st"
proof -
  have k: "quote_plus ''client_id'' = ''client_id''" "quote_plus ''redirect_uri'' = ''redirect_uri''"
    "quote_plus ''scope'' = ''scope''" "quote_plus ''response_type'' = ''response_type''"
    "quote_plus ''state'' = ''state''" "quote_plus ''code'' = ''code''"
    by (simp_all add: quote_plus_def quote_char_def always_safe_def)
  show ?thesis
    by (simp add: get_authorization_url_def authorization_params_def urlencode_def k)
qed

lemma urlencode_chars:
  "\<forall>c\<in>set (urlencode params). query_char c \<or> c = CHR ''='' \<or> c = CHR ''&''"
proof (induction params rule: induct_list012)
  case 1
  show ?case by (simp add: urlencode_def)
next
  case (2 p)
  show ?case using quote_plus_chars
    by (cases p) (auto simp: urlencode_def)
next
  case (3 p q ps)
  have "urlencode (p # q # ps)
          = quote_plus (fst p) @ ''='' @ quote_plus (snd p) @ ''&'' @ urlencode (q # ps)"
    by (simp add: urlencode_def case_prod_beta)
  with 3(2) show ?case using quote_plus_chars
    by auto
qed

lemma scope_decides_url:
  "get_authorization_url pf self (Some scs) (Some st)
     = get_authorization_url pf self (Some scs') (Some st)
   \<longleftrightarrow> py_join '' '' scs = py_join '' '' scs'"
proof
  assume "get_authorization_url pf self (Some scs) (Some st)
            = get_authorization_url pf self (Some scs') (Some st)"
  then have "quote_plus (py_join '' '' scs) @ (''&response_type=code'' @ ''&state='' @ quote_plus st)
           = quote_plus (py_join '' '' scs') @ (''&response_type=code'' @ ''&state='' @ quote_plus st)"
    by (simp add: authorization_url_form)
  then show "py_join '' '' scs = py_join '' '' scs'"
    by (simp add: quote_plus_inj)
next
  assume "py_join '' '' scs = py_join '' '' scs'"
  then show "get_authorization_url pf self (Some scs) (Some st)
               = get_authorization_url pf self (Some scs') (Some st)"
    by (simp add: authorization_url_form)
qed

text \<open>
  Claim C7.  With \<open>state\<close> supplied, the URL does not depend on the random source,
  so two calls with the same client, scopes and state return the same string.  The
  URL is the authorize endpoint followed by the five parameters in the order
  \<open>client_id\<close>, \<open>redirect_uri\<close>, \<open>scope\<close>, \<open>response_type=code\<close>, \<open>state\<close>, each
  value quoted with \<open>quote_plus\<close>.  Two calls that differ in \<open>scopes\<close> only build
  parameter lists that differ in the \<open>scope\<close> entry only, so their URLs share
  everything before and after the quoted scope value, and they are equal exactly when
  the joined scopes are.  The query string consists of unreserved characters, \<open>+\<close>,
  \<open>%\<close>, \<open>=\<close> and \<open>&\<close>, and quoting loses nothing: \<open>quote_plus\<close> is
  injective.
\<close>

theorem C7_authorization_url:
  "get_authorization_url pf self scopes (Some st) = get_authorization_url pf' self scopes (Some st)
   \<and> get_authorization_url pf self (Some scs) (Some st)
       = authorize_url self @ ''?client_id='' @ quote_plus (client_id self)
         @ ''&redirect_uri='' @ quote_plus (redirect_uri self)
         @ ''&scope='' @ quote_plus (py_join '' '' scs)
         @ ''&response_type=code'' @ ''&state='' @ quote_plus st
   \<and> authorization_params pf self (Some scs) (Some st)
       = (authorization_params pf self (Some scs') (Some st)) [2 := (''scope'', py_join '' '' scs)]
   \<and> (get_authorization_url pf self (Some scs) (Some st)
        = get_authorization_url pf self (Some scs') (Some st)
        \<longleftrightarrow> py_join '' '' scs = py_join '' '' scs')
   \<and> (\<forall>c\<in>set (urlencode (authorization_params pf self scopes state_opt)).
         query_char c \<or> c = CHR ''='' \<or> c = CHR ''&'')
   \<and> (\<forall>s t. quote_plus s = quote_plus t \<longrightarrow> s = t)"
proof -
  have a: "get_authorization_url pf self scopes (Some st)
             = get_authorization_url pf' self scopes (Some st)"
    by (simp add: get_authorization_url_def authorization_params_def)
  have b: "authorization_params pf self (Some scs) (Some st)
       = (authorization_params pf self (Some scs') (Some st)) [2 := (''scope'', py_join '' '' scs)]"
    by (simp add: authorization_params_def numeral_2_eq_2)
  have c: "\<forall>s t. quote_plus s = quote_plus t \<longrightarrow> s = t"
    using quote_plus_inj by blast
  from a authorization_url_form b scope_decides_url urlencode_chars c
  show ?thesis by blast
qed

theorem C7_authorization_url_witness:
  "get_authorization_url (example_platform (ok_response Map.empty)) example_oauth
     (Some [''oauth'', ''crm.objects.contacts.read'']) (Some ''st 1/='')
   = ''https://app.hubspot.com/oauth/authorize?client_id=cid'' @
     ''&redirect_uri=http%3A%2F%2Flocalhost%3A4000%2Fhubspot%2Foauth%2Fcallback'' @
     ''&scope=oauth+crm.objects.contacts.read&response_type=code&state=st+1%2F%3D''"
proof -
  have q: "quote_plus ''cid'' = ''cid''"
    "quote_plus ''http://localhost:4000/hubspot/oauth/callback''
       = ''http%3A%2F%2Flocalhost%3A4000%2Fhubspot%2Foauth%2Fcallback''"
    "quote_plus ''oauth crm.objects.contacts.read'' = ''oauth+crm.objects.contacts.read''"
    "quote_plus ''st 1/='' = ''st+1%2F%3D''"
    by code_simp+
  from C7_authorization_url
         [where pf = "example_platform (ok_response Map.empty)" and self = example_oauth
            and scs = "[''oauth'', ''crm.objects.contacts.read'']" and st = "''st 1/=''"]
  have "get_authorization_url (example_platform (ok_response Map.empty)) example_oauth
          (Some [''oauth'', ''crm.objects.contacts.read'']) (Some ''st 1/='')
        = authorize_url example_oauth @ ''?client_id='' @ quote_plus (client_id example_oauth)
          @ ''&redirect_uri='' @ quote_plus (redirect_uri example_oauth)
          @ ''&scope='' @ quote_plus (py_join '' '' [''oauth'', ''crm.objects.contacts.read''])
          @ ''&response_type=code'' @ ''&state='' @ quote_plus ''st 1/=''"
    by blast
  then show ?thesis
    by (simp add: example_oauth_def q)
qed



section \<open>Properties of the persisted credential file\<close>

lemma split_char_nonempty: "split_char sep s \<noteq> []"
  by (induction s) (auto split: list.splits)

lemma split_char_empty: "split_char sep [] = [[]]"
  by simp

lemma join_split_char: "py_join [sep] (split_char sep s) = s"
proof (induction s)
  case Nil
  show ?case by simp
next
  case (Cons c cs)
  obtain w ws where sp: "split_char sep cs = w # ws"
    using split_char_nonempty [of sep cs] by (cases "split_char sep cs") auto
  with Cons show ?case
    by (cases ws) auto
qed

lemma split_char_pieces: "w \<in> set (split_char sep s) \<Longrightarrow> sep \<notin> set w"
proof (induction s arbitrary: w)
  case Nil
  then show ?case by simp
next
  case (Cons c cs)
  obtain v vs where sp: "split_char sep cs = v # vs"
    using split_char_nonempty [of sep cs] by (cases "split_char sep cs") auto
  with Cons show ?case
    by (auto split: if_splits)
qed

lemma length_split_char: "length (split_char sep s) = Suc (count_list s sep)"
  by (induction s) (auto split: list.splits simp: split_char_nonempty)

lemma exchange_and_save_success:
  assumes "exchange_and_save pf c code w = (Inr result, w')"
    and "resp_json (net pf (http_log w) (exchange_request c code)) = Inr token_data"
  shows "\<exists>scopes doc.
           json_split_space (dict_get_default token_data ''scope'' (JStr [])) = Inr scopes
         \<and> tokens_file w' = Some (JsonDoc doc) \<and> doc ''scopes'' = Some scopes
         \<and> doc ''access_token'' = token_data ''access_token''
         \<and> status_code (net pf (http_log w) (exchange_request c code)) = 200"
proof -
  have ex: "exchange_code_for_token pf c code w
              = (if status_code (net pf (http_log w) (exchange_request c code)) = 200
                 then Inr token_data
                 else Inl (Exception (failure_message ''Token exchange failed: ''
                                        (net pf (http_log w) (exchange_request c code)))),
                 w\<lparr>http_log := http_log w @ [exchange_request c code]\<rparr>)"
    using assms(2) by (simp add: exchange_code_for_token_def requests_send_def)
  from assms(1) show ?thesis
    unfolding exchange_and_save_def ex
    by (auto simp: Let_def dict_index_def split: if_splits sum.splits prod.splits option.splits)
qed

text \<open>
  Claim C10.  In every run of \<open>interactive_oauth_flow\<close> that returns a result, with
  \<open>token_data\<close> the parsed body of the response to the code exchange, the credential
  file holds a record whose \<open>scopes\<close> field is the list \<open>[""]\<close> when \<open>token_data\<close>
  has no \<open>scope\<close>, and the pieces of \<open>scope.split(' ')\<close> when \<open>scope\<close> is the string
  \<open>s\<close>; no other \<open>scope\<close> lets the run succeed.  The pieces are cut at every single
  space: joined by a space they give \<open>s\<close> back, there is one more piece than the
  string has spaces, and no piece holds a space.
\<close>

theorem C10_persisted_scopes:
  assumes "interactive_oauth_flow pf getenv arrivals w = Some (Some result, w')"
    and "HubSpotOAuth getenv = Inr oauth_client"
    and "wait_for_callback start_callback_server arrivals = Some server"
    and "server_auth_code server = Some code"
    and "resp_json (net pf (http_log w) (exchange_request oauth_client code)) = Inr token_data"
  shows "\<exists>doc. tokens_file w' = Some (JsonDoc doc)
           \<and> (token_data ''scope'' = None \<longrightarrow> doc ''scopes'' = Some (JList [JStr []]))
           \<and> (\<forall>s. token_data ''scope'' = Some (JStr s) \<longrightarrow>
                  doc ''scopes'' = Some (JList (map JStr (split_char CHR '' '' s))))
           \<and> (token_data ''scope'' = None \<or> (\<exists>s. token_data ''scope'' = Some (JStr s)))
           \<and> (\<forall>s. py_join '' '' (split_char CHR '' '' s) = s
                  \<and> length (split_char CHR '' '' s) = Suc (count_list s CHR '' '')
                  \<and> (\<forall>piece\<in>set (split_char CHR '' '' s). CHR '' '' \<notin> set piece))"
proof -
  let ?w0 = "w\<lparr>browser := browser w @ [get_authorization_url pf oauth_client None None]\<rparr>"
  from assms(1,2,3,4) have saved: "exchange_and_save pf oauth_client code ?w0 = (Inr result, w')"
    by (auto simp: interactive_oauth_flow_def Let_def split: if_splits sum.splits prod.splits)
  have js: "resp_json (net pf (http_log ?w0) (exchange_request oauth_client code)) = Inr token_data"
    using assms(5) by simp
  from exchange_and_save_success [OF saved js]
  obtain scopes doc where sp: "json_split_space (dict_get_default token_data ''scope'' (JStr [])) = Inr scopes"
    and doc: "tokens_file w' = Some (JsonDoc doc)" "doc ''scopes'' = Some scopes"
    by blast
  have none: "token_data ''scope'' = None \<longrightarrow> doc ''scopes'' = Some (JList [JStr []])"
    using sp doc(2) by (auto simp: json_split_space_def dict_get_default_def)
  have some: "\<forall>s. token_data ''scope'' = Some (JStr s) \<longrightarrow>
                doc ''scopes'' = Some (JList (map JStr (split_char CHR '' '' s)))"
    using sp doc(2) by (auto simp: json_split_space_def dict_get_default_def)
  have shape: "token_data ''scope'' = None \<or> (\<exists>s. token_data ''scope'' = Some (JStr s))"
    using sp by (auto simp: json_split_space_def dict_get_default_def split: option.splits json.splits)
  have split: "\<forall>s. py_join '' '' (split_char CHR '' '' s) = s
                  \<and> length (split_char CHR '' '' s) = Suc (count_list s CHR '' '')
                  \<and> (\<forall>piece\<in>set (split_char CHR '' '' s). CHR '' '' \<notin> set piece)"
    using join_split_char [of "CHR '' ''"] length_split_char split_char_pieces by blast
  show ?thesis
    by (rule exI [of _ doc]) (intro conjI doc(1) none some shape split)
qed

lemma wait_granted:
  "wait_for_callback start_callback_server [[granted_query]]
     = Some \<lparr>server_auth_code = Some ''abc123'', server_state = Some ''c3RhdGU'',
             server_error = None\<rparr>"
  by (simp add: waiting_def start_callback_server_def serve_def do_GET_def granted_query_def)

lemma granted_exchange:
  "\<exists>result w'. exchange_and_save (example_platform (ok_response token_body)) example_oauth
                   ''abc123'' w = (Inr result, w')"
  by (simp add: exchange_and_save_def exchange_code_for_token_def get_user_info_def
        test_api_connection_def requests_send_def example_platform_def fixed_net_def
        ok_response_def token_body_def slice20_def dict_get_default_def dict_index_def
        json_split_space_def Let_def)

lemma granted_flow_saves:
  "\<exists>result w'. interactive_oauth_flow (example_platform (ok_response token_body)) example_env
                   [[granted_query]] new_world = Some (Some result, w')"
proof -
  let ?pf = "example_platform (ok_response token_body)"
  let ?w0 = "new_world\<lparr>browser := browser new_world
                          @ [get_authorization_url ?pf example_oauth None None]\<rparr>"
  from granted_exchange [of ?w0] obtain result w'
    where ex: "exchange_and_save ?pf example_oauth ''abc123'' ?w0 = (Inr result, w')"
    by blast
  have "interactive_oauth_flow ?pf example_env [[granted_query]] new_world
          = Some (Some result, w')"
    unfolding interactive_oauth_flow_def
    by (simp add: example_oauth_init wait_granted is_set_def Let_def ex
          del: wait_for_callback.simps)
  then show ?thesis by blast
qed

theorem C10_persisted_scopes_witness:
  "\<exists>result w' doc.
     interactive_oauth_flow (example_platform (ok_response token_body)) example_env
       [[granted_query]] new_world = Some (Some result, w')
   \<and> tokens_file w' = Some (JsonDoc doc)
   \<and> doc ''scopes'' = Some (JList [JStr []])"
proof -
  let ?pf = "example_platform (ok_response token_body)"
  from granted_flow_saves obtain result w'
    where run: "interactive_oauth_flow ?pf example_env [[granted_query]] new_world
                  = Some (Some result, w')"
    by blast
  have code: "server_auth_code \<lparr>server_auth_code = Some ''abc123'', server_state = Some ''c3RhdGU'',
                                server_error = None\<rparr> = Some ''abc123''"
    by simp
  have js: "resp_json (net ?pf (http_log new_world) (exchange_request example_oauth ''abc123''))
              = Inr token_body"
    by (simp add: example_platform_def fixed_net_def ok_response_def)
  have no_scope: "token_body ''scope'' = None"
    by (simp add: token_body_def)
  from C10_persisted_scopes [OF run example_oauth_init wait_granted code js] no_scope
  obtain doc where "tokens_file w' = Some (JsonDoc doc)" "doc ''scopes'' = Some (JList [JStr []])"
    by blast
  with run show ?thesis by blast
qed


end
